theory Spec2Isabelle
  imports Complex_Main "HOL-Library.Sublist" "HOL-Library.AList"
begin

section \<open>Python values and the primitives the adapter applies to them\<close>

text \<open>
  The vendor snapshots (\<open>sys_info\<close>, the light state, the emeter reading) are decoded
  JSON: dictionaries with string keys over integers, strings, lists, nested dictionaries,
  booleans, \<open>None\<close> and numbers with a fractional part. A dictionary is an association
  list read with \<open>map_of\<close> (the first binding of a key is the binding); a tuple is
  represented as a list. A float is represented by the rational it denotes, so \<open>/\<close>
  is exact here, where Python rounds to the nearest double.
\<close>

datatype pyval =
    PNone
  | PBool bool
  | PInt int
  | PFloat rat
  | PStr string
  | PList "pyval list"
  | PDict "(string \<times> pyval) list"

datatype error =
    KeyError
  | TypeError
  | ValueError
  | IndexError
  | AttributeError
  | SmartDeviceException
  | OtherError string

text \<open>Sequencing of computations that may raise: the first exception wins.\<close>

definition bindE :: "error + 'a \<Rightarrow> ('a \<Rightarrow> error + 'b) \<Rightarrow> error + 'b" where
  "bindE m f = (case m of Inl e \<Rightarrow> Inl e | Inr x \<Rightarrow> f x)"

text \<open>\<open>bool(v)\<close>: Python truthiness.\<close>

fun py_bool :: "pyval \<Rightarrow> bool" where
  "py_bool PNone = False"
| "py_bool (PBool b) = b"
| "py_bool (PInt i) = (i \<noteq> 0)"
| "py_bool (PFloat r) = (r \<noteq> 0)"
| "py_bool (PStr s) = (s \<noteq> [])"
| "py_bool (PList xs) = (xs \<noteq> [])"
| "py_bool (PDict d) = (d \<noteq> [])"

text \<open>\<open>needle in haystack\<close> on strings: a contiguous occurrence.\<close>

fun str_contains :: "string \<Rightarrow> string \<Rightarrow> bool" where
  "str_contains needle [] = (needle = [])"
| "str_contains needle (c # cs) = (prefix needle (c # cs) \<or> str_contains needle cs)"

text \<open>\<open>s.split(sep)\<close> for a one-character separator: one more piece than separators.\<close>

fun split_on :: "char \<Rightarrow> string \<Rightarrow> string list" where
  "split_on sep [] = [[]]"
| "split_on sep (c # cs) =
     (if c = sep then [] # split_on sep cs
      else (case split_on sep cs of
              [] \<Rightarrow> [[c]]
            | w # ws \<Rightarrow> (c # w) # ws))"

text \<open>
  \<open>k in v\<close> for a string \<open>k\<close>: key membership in a dictionary, substring test on a
  string, element test on a list (a string equals only strings); the other values are
  not iterable.
\<close>

fun py_in :: "string \<Rightarrow> pyval \<Rightarrow> error + bool" where
  "py_in k (PDict d) = Inr (map_of d k \<noteq> None)"
| "py_in k (PStr s) = Inr (str_contains k s)"
| "py_in k (PList xs) = Inr (PStr k \<in> set xs)"
| "py_in k PNone = Inl TypeError"
| "py_in k (PBool b) = Inl TypeError"
| "py_in k (PInt i) = Inl TypeError"
| "py_in k (PFloat r) = Inl TypeError"

text \<open>\<open>v[k]\<close> for a string \<open>k\<close>: only a dictionary accepts a string subscript.\<close>

fun py_getitem :: "pyval \<Rightarrow> string \<Rightarrow> error + pyval" where
  "py_getitem (PDict d) k = (case map_of d k of None \<Rightarrow> Inl KeyError | Some v \<Rightarrow> Inr v)"
| "py_getitem v k = Inl TypeError"

text \<open>
  \<open>v[i]\<close> for an integer \<open>i\<close>: lists and strings count negative indices from the end
  and raise IndexError out of range; a dictionary with string keys has no integer key.
\<close>

definition seq_index :: "'a list \<Rightarrow> int \<Rightarrow> error + 'a" where
  "seq_index xs i =
     (if 0 \<le> i \<and> i < int (length xs) then Inr (xs ! nat i)
      else if i < 0 \<and> - int (length xs) \<le> i then Inr (xs ! nat (int (length xs) + i))
      else Inl IndexError)"

fun py_getitem_int :: "pyval \<Rightarrow> int \<Rightarrow> error + pyval" where
  "py_getitem_int (PList xs) i = seq_index xs i"
| "py_getitem_int (PStr s) i = map_sum id (\<lambda>c. PStr [c]) (seq_index s i)"
| "py_getitem_int (PDict d) i = Inl KeyError"
| "py_getitem_int v i = Inl TypeError"

text \<open>
  \<open>int(s)\<close> on a string, base 10: surrounding whitespace (tab, line feed, vertical
  tab, form feed, carriage return, space) is dropped, then an optional sign, then
  decimal digits in which single underscores may separate digits. Characters are ASCII
  here.
\<close>

definition is_space :: "char \<Rightarrow> bool" where
  "is_space c = (let n = of_char c :: nat in (9 \<le> n \<and> n \<le> 13) \<or> n = 32)"

definition is_digit :: "char \<Rightarrow> bool" where
  "is_digit c = (let n = of_char c :: nat in 48 \<le> n \<and> n \<le> 57)"

definition digit_val :: "char \<Rightarrow> int" where
  "digit_val c = int (of_char c) - 48"

definition strip :: "string \<Rightarrow> string" where
  "strip s = rev (dropWhile is_space (rev (dropWhile is_space s)))"

text \<open>
  \<open>digits acc prev s\<close> reads the rest of the literal: \<open>acc\<close> is the value so far and
  \<open>prev\<close> tells whether the previous character was a digit (an underscore is legal
  only between two digits).
\<close>

fun digits :: "int \<Rightarrow> bool \<Rightarrow> string \<Rightarrow> int option" where
  "digits acc prev [] = (if prev then Some acc else None)"
| "digits acc prev (c # cs) =
     (if is_digit c then digits (10 * acc + digit_val c) True cs
      else if c = CHR ''_'' \<and> prev then digits acc False cs
      else None)"

definition int_of_string :: "string \<Rightarrow> int option" where
  "int_of_string s =
     (case strip s of
        [] \<Rightarrow> None
      | c # cs \<Rightarrow>
          if c = CHR ''-'' then map_option uminus (digits 0 False cs)
          else if c = CHR ''+'' then digits 0 False cs
          else digits 0 False (c # cs))"

text \<open>Truncation toward zero, as \<open>int\<close> does on a float.\<close>

definition trunc :: "rat \<Rightarrow> int" where
  "trunc r = (if 0 \<le> r then \<lfloor>r\<rfloor> else \<lceil>r\<rceil>)"

fun py_int :: "pyval \<Rightarrow> error + int" where
  "py_int (PBool b) = Inr (if b then 1 else 0)"
| "py_int (PInt i) = Inr i"
| "py_int (PFloat r) = Inr (trunc r)"
| "py_int (PStr s) = (case int_of_string s of None \<Rightarrow> Inl ValueError | Some i \<Rightarrow> Inr i)"
| "py_int PNone = Inl TypeError"
| "py_int (PList xs) = Inl TypeError"
| "py_int (PDict d) = Inl TypeError"

text \<open>
  \<open>v / n\<close> for a non-zero integer literal \<open>n\<close>: true division, always a float. The
  quotient is the exact rational: Python gives the double nearest to it, and raises
  OverflowError where an integer quotient is beyond the doubles (above about 1.8e308),
  which is not represented here.
\<close>

fun py_truediv :: "pyval \<Rightarrow> int \<Rightarrow> error + pyval" where
  "py_truediv (PBool b) n = Inr (PFloat ((if b then 1 else 0) / of_int n))"
| "py_truediv (PInt i) n = Inr (PFloat (of_int i / of_int n))"
| "py_truediv (PFloat r) n = Inr (PFloat (r / of_int n))"
| "py_truediv v n = Inl TypeError"

text \<open>\<open>v * n\<close> for an integer literal \<open>n\<close>: arithmetic on numbers, repetition on sequences.\<close>

fun py_mul :: "pyval \<Rightarrow> int \<Rightarrow> error + pyval" where
  "py_mul (PBool b) n = Inr (PInt ((if b then 1 else 0) * n))"
| "py_mul (PInt i) n = Inr (PInt (i * n))"
| "py_mul (PFloat r) n = Inr (PFloat (r * of_int n))"
| "py_mul (PStr s) n = Inr (PStr (concat (replicate (nat n) s)))"
| "py_mul (PList xs) n = Inr (PList (concat (replicate (nat n) xs)))"
| "py_mul v n = Inl TypeError"

text \<open>\<open>n - v\<close> for an integer literal \<open>n\<close>.\<close>

fun py_rsub :: "int \<Rightarrow> pyval \<Rightarrow> error + pyval" where
  "py_rsub n (PBool b) = Inr (PInt (n - (if b then 1 else 0)))"
| "py_rsub n (PInt i) = Inr (PInt (n - i))"
| "py_rsub n (PFloat r) = Inr (PFloat (of_int n - r))"
| "py_rsub n v = Inl TypeError"

section \<open>The vendor client and the device object\<close>

text \<open>
  The vendor client \<open>kyla_dev\<close> (pyKyla, an external library) is represented by what each
  of its reads gives at the moment the adapter asks: a value, or the exception raised.

  The methods keep their names. Where \<open>AztechPlug\<close> and \<open>AztechBulb\<close> both have a
  method of one name (\<open>is_on\<close>, \<open>is_dimmable\<close>, \<open>brightness\<close>, \<open>poll\<close>,
  \<open>__init__\<close>), the class is put in front; \<open>power\<close> is \<open>power_emeter\<close>, since
  \<open>power\<close> is exponentiation in HOL.
\<close>

record kyla_dev =
  sys_info :: "error + pyval"
  get_emeter_realtime :: "error + pyval"
  get_light_state :: "error + pyval"
  valid_temperature_range :: "error + pyval"

text \<open>
  Modelled from the spec: \<open>AztechPlugProperty\<close> and \<open>AztechBulbProperty\<close>
  (\<open>pkg/aztech_property.py\<close>, not among the sources). A property is a value holder with
  an immutable identity (its name and its metadata dictionary) and a mutable current
  value; the constructor receives the three and keeps them.
\<close>

record property =
  prop_name :: string
  prop_description :: "(string \<times> pyval) list"
  prop_value :: pyval

text \<open>
  The device object: \<open>_type\<close>, \<open>index\<close>, \<open>description\<close>, \<open>name\<close> and the
  \<open>properties\<close> dictionary, which keeps insertion order (\<open>AList.update\<close> replaces a
  binding in place and appends a new key).
\<close>

record device =
  d_type :: "string list"
  d_index :: int
  d_description :: pyval
  d_name :: pyval
  d_properties :: "(string \<times> property) list"

definition POLL_INTERVAL :: nat where
  "POLL_INTERVAL = 5"

text \<open>
  \<open>AztechDevice.__init__\<close>. \<open>Device.__init__\<close> of the gateway library leaves
  \<open>properties\<close> empty; the polling thread that is started here is the loop of the
  subsection on polling. Every read of \<open>kyla_dev.sys_info\<close> during one construction
  gives the same answer.
\<close>

definition device_init :: "kyla_dev \<Rightarrow> int \<Rightarrow> error + device" where
  "device_init kyla index =
     bindE (sys_info kyla) (\<lambda>si0.
     bindE (py_getitem si0 ''model'') (\<lambda>description.
     bindE (if index \<ge> 0 then
              bindE (sys_info kyla) (\<lambda>si.
              bindE (py_getitem si ''children'') (\<lambda>children.
              bindE (py_getitem_int children index) (\<lambda>child.
              py_getitem child ''alias'')))
            else
              bindE (sys_info kyla) (\<lambda>si. py_getitem si ''alias'')) (\<lambda>name.
     Inr \<lparr>d_type = [], d_index = index, d_description = description,
          d_name = (if \<not> py_bool name then description else name),
          d_properties = []\<rparr>)))"

subsection \<open>Energy readings\<close>

definition power_emeter :: "pyval \<Rightarrow> error + pyval" where
  "power_emeter emeter =
     bindE (py_in ''power'' emeter) (\<lambda>base.
     if base then py_getitem emeter ''power''
     else bindE (py_in ''power_mw'' emeter) (\<lambda>milli.
          if milli then bindE (py_getitem emeter ''power_mw'') (\<lambda>v. py_truediv v 1000)
          else Inr PNone))"

definition voltage :: "pyval \<Rightarrow> error + pyval" where
  "voltage emeter =
     bindE (py_in ''voltage'' emeter) (\<lambda>base.
     if base then py_getitem emeter ''voltage''
     else bindE (py_in ''voltage_mv'' emeter) (\<lambda>milli.
          if milli then bindE (py_getitem emeter ''voltage_mv'') (\<lambda>v. py_truediv v 1000)
          else Inr PNone))"

definition current :: "pyval \<Rightarrow> error + pyval" where
  "current emeter =
     bindE (py_in ''current'' emeter) (\<lambda>base.
     if base then py_getitem emeter ''current''
     else bindE (py_in ''current_ma'' emeter) (\<lambda>milli.
          if milli then bindE (py_getitem emeter ''current_ma'') (\<lambda>v. py_truediv v 1000)
          else Inr PNone))"

subsection \<open>Plug: the static readers\<close>

text \<open>
  \<open>SmartDevice.FEATURE_ENERGY_METER\<close> is a constant of the vendor library; the readers
  take it as the argument \<open>ene\<close>. A value without a \<open>split\<close> method raises
  AttributeError.
\<close>

definition has_emeter :: "string \<Rightarrow> pyval \<Rightarrow> error + bool" where
  "has_emeter ene sysinfo =
     bindE (py_getitem sysinfo ''feature'') (\<lambda>f.
     case f of
       PStr s \<Rightarrow> Inr (ene \<in> set (split_on CHR '':'' s))
     | _ \<Rightarrow> Inl AttributeError)"

definition plug_is_on :: "int \<Rightarrow> pyval \<Rightarrow> error + bool" where
  "plug_is_on index sysinfo =
     (if index \<ge> 0 then
        bindE (py_getitem sysinfo ''children'') (\<lambda>children.
        bindE (py_getitem_int children index) (\<lambda>child.
        bindE (py_getitem child ''state'') (\<lambda>st. Inr (py_bool st))))
      else bindE (py_getitem sysinfo ''relay_state'') (\<lambda>st. Inr (py_bool st)))"

definition is_led_on :: "pyval \<Rightarrow> error + bool" where
  "is_led_on sysinfo =
     bindE (py_getitem sysinfo ''led_off'') (\<lambda>off.
     bindE (py_rsub 1 off) (\<lambda>v. Inr (py_bool v)))"

definition plug_is_dimmable :: "pyval \<Rightarrow> error + bool" where
  "plug_is_dimmable sysinfo = py_in ''brightness'' sysinfo"

definition plug_brightness :: "pyval \<Rightarrow> error + int" where
  "plug_brightness sysinfo = bindE (py_getitem sysinfo ''brightness'') py_int"

subsection \<open>Building the device\<close>

text \<open>
  \<open>self._type.append(tag)\<close>, and \<open>self.properties[name] = Property(self, name,
  description, value)\<close>.
\<close>

definition add_type :: "string \<Rightarrow> device \<Rightarrow> device" where
  "add_type tag d = d\<lparr>d_type := d_type d @ [tag]\<rparr>"

definition add_property :: "string \<Rightarrow> (string \<times> pyval) list \<Rightarrow> pyval \<Rightarrow> device \<Rightarrow> device" where
  "add_property name description v d =
     d\<lparr>d_properties :=
         AList.update name
           \<lparr>prop_name = name, prop_description = description, prop_value = v\<rparr>
           (d_properties d)\<rparr>"

text \<open>
  The energy block, which \<open>AztechPlug.__init__\<close> (lines 121 to 163) and
  \<open>AztechBulb.__init__\<close> (lines 363 to 405) both contain: the three readings of one
  emeter snapshot, a property for each reading that is not \<open>None\<close>, and the
  \<open>EnergyMonitor\<close> tag with the power property.
\<close>

definition energy_properties :: "pyval \<Rightarrow> device \<Rightarrow> error + device" where
  "energy_properties emeter d =
     bindE (power_emeter emeter) (\<lambda>power.
     let d1 = (if power \<noteq> PNone then
                 add_property ''instantaneousPower''
                   [(''@type'', PStr ''InstantaneousPowerProperty''),
                    (''title'', PStr ''Power''),
                    (''type'', PStr ''number''),
                    (''unit'', PStr ''watt'')]
                   power (add_type ''EnergyMonitor'' d)
               else d) in
     bindE (voltage emeter) (\<lambda>volt.
     let d2 = (if volt \<noteq> PNone then
                 add_property ''voltage''
                   [(''@type'', PStr ''VoltageProperty''),
                    (''title'', PStr ''Voltage''),
                    (''type'', PStr ''number''),
                    (''unit'', PStr ''volt'')]
                   volt d1
               else d1) in
     bindE (current emeter) (\<lambda>cur.
     Inr (if cur \<noteq> PNone then
            add_property ''current''
              [(''@type'', PStr ''CurrentProperty''),
               (''title'', PStr ''Current''),
               (''type'', PStr ''number''),
               (''unit'', PStr ''ampere'')]
              cur d2
          else d2))))"

subsection \<open>Plug: construction\<close>

text \<open>
  \<open>AztechPlug.__init__\<close>, block by block. An exception raised anywhere leaves no
  device: the result is \<open>Inl\<close>.
\<close>

text \<open>Lines 113 to 115: the condition under which the \<open>SmartPlug\<close> tag is appended.\<close>

definition not_light_switch :: "pyval \<Rightarrow> error + bool" where
  "not_light_switch sysinfo =
     bindE (py_in ''dev_name'' sysinfo) (\<lambda>named.
     if \<not> named then Inr True
     else bindE (py_getitem sysinfo ''dev_name'') (\<lambda>dn.
          bindE (py_in ''Light Switch'' dn) (\<lambda>sw. Inr (\<not> sw))))"

text \<open>Lines 165 to 179.\<close>

definition plug_level :: "pyval \<Rightarrow> device \<Rightarrow> error + device" where
  "plug_level sysinfo d =
     bindE (plug_is_dimmable sysinfo) (\<lambda>dimmable.
     if dimmable then
       bindE (plug_brightness sysinfo) (\<lambda>level.
       Inr (add_property ''level''
              [(''@type'', PStr ''LevelProperty''),
               (''title'', PStr ''Level''),
               (''type'', PStr ''integer''),
               (''unit'', PStr ''percent''),
               (''minimum'', PInt 0),
               (''maximum'', PInt 100)]
              (PInt level) (add_type ''MultiLevelSwitch'' d)))
     else Inr d)"

definition plug_init :: "string \<Rightarrow> kyla_dev \<Rightarrow> int \<Rightarrow> error + device" where
  "plug_init ene kyla index =
     bindE (device_init kyla index) (\<lambda>d0.
     let d1 = add_type ''OnOffSwitch'' d0 in
     bindE (sys_info kyla) (\<lambda>sysinfo.
     bindE (not_light_switch sysinfo) (\<lambda>plug.
     let d2 = (if plug then add_type ''SmartPlug'' d1 else d1) in
     bindE (has_emeter ene sysinfo) (\<lambda>metered.
     bindE (if metered then
              bindE (get_emeter_realtime kyla) (\<lambda>emeter. energy_properties emeter d2)
            else Inr d2) (\<lambda>d3.
     bindE (plug_level sysinfo d3) (\<lambda>d4.
     bindE (plug_is_on index sysinfo) (\<lambda>on.
     let d5 = add_property ''on''
                [(''@type'', PStr ''OnOffProperty''),
                 (''title'', PStr ''On/Off''),
                 (''type'', PStr ''boolean'')]
                (PBool on) d4 in
     bindE (is_led_on sysinfo) (\<lambda>led.
     Inr (add_property ''led-on''
            [(''title'', PStr ''LED On/Off''),
             (''type'', PStr ''boolean'')]
            (PBool led) d5)))))))))"

subsection \<open>Polling\<close>

text \<open>
  \<open>prop.update\<close> belongs to \<open>pkg/aztech_property.py\<close>, which is not among the sources;
  the poll loops take it as the argument \<open>upd\<close>: the property after the call, and the
  exception it raised, if any. The \<open>for\<close> loop over \<open>self.properties.values()\<close> stops
  at the first exception; the properties updated before it stay updated.
\<close>

fun update_all ::
  "(property \<Rightarrow> error option \<times> property) \<Rightarrow> (string \<times> property) list
     \<Rightarrow> error option \<times> (string \<times> property) list" where
  "update_all upd [] = (None, [])"
| "update_all upd ((k, p) # ps) =
     (case upd p of
        (Some e, p') \<Rightarrow> (Some e, (k, p') # ps)
      | (None, p') \<Rightarrow> (case update_all upd ps of (r, ps') \<Rightarrow> (r, (k, p') # ps')))"

text \<open>
  One pass through the body of \<open>while True\<close>, after the sleep. \<open>Next\<close>: the loop goes
  on to its next iteration (the body completed, or reached \<open>continue\<close>). \<open>Raised\<close>:
  an exception other than \<open>SmartDeviceException\<close> left the \<open>try\<close> and ends the loop.
\<close>

datatype cycle = Next device | Raised error device

definition except_SmartDeviceException :: "error \<Rightarrow> device \<Rightarrow> cycle" where
  "except_SmartDeviceException e dev = (if e = SmartDeviceException then Next dev else Raised e dev)"

definition run_updates :: "(property \<Rightarrow> error option \<times> property) \<Rightarrow> device \<Rightarrow> cycle" where
  "run_updates upd dev =
     (case update_all upd (d_properties dev) of
        (None, ps) \<Rightarrow> Next (dev\<lparr>d_properties := ps\<rparr>)
      | (Some e, ps) \<Rightarrow> except_SmartDeviceException e (dev\<lparr>d_properties := ps\<rparr>))"

definition plug_poll_cycle ::
  "string \<Rightarrow> (pyval \<Rightarrow> pyval \<Rightarrow> property \<Rightarrow> error option \<times> property)
     \<Rightarrow> kyla_dev \<Rightarrow> device \<Rightarrow> cycle" where
  "plug_poll_cycle ene upd kyla dev =
     (case sys_info kyla of
        Inl e \<Rightarrow> except_SmartDeviceException e dev
      | Inr sysinfo \<Rightarrow>
          if sysinfo = PNone then Next dev
          else (case has_emeter ene sysinfo of
                  Inl e \<Rightarrow> except_SmartDeviceException e dev
                | Inr False \<Rightarrow> run_updates (upd sysinfo PNone) dev
                | Inr True \<Rightarrow>
                    (case get_emeter_realtime kyla of
                       Inl e \<Rightarrow> except_SmartDeviceException e dev
                     | Inr emeter \<Rightarrow> run_updates (upd sysinfo emeter) dev)))"

text \<open>
  The loop itself never returns. It is run here against a finite trace: the vendor
  client's answers in the successive iterations. \<open>Polling t dev\<close>: every iteration of
  the trace is done and the loop is about to sleep again, at time \<open>t\<close>. \<open>Stopped\<close>:
  an exception escaped the loop at that time.
\<close>

datatype poll_state = Polling nat device | Stopped nat error device

fun plug_poll ::
  "string \<Rightarrow> (pyval \<Rightarrow> pyval \<Rightarrow> property \<Rightarrow> error option \<times> property)
     \<Rightarrow> kyla_dev list \<Rightarrow> nat \<Rightarrow> device \<Rightarrow> poll_state" where
  "plug_poll ene upd [] t dev = Polling t dev"
| "plug_poll ene upd (kyla # rest) t dev =
     (case plug_poll_cycle ene upd kyla dev of
        Next dev' \<Rightarrow> plug_poll ene upd rest (t + POLL_INTERVAL) dev'
      | Raised e dev' \<Rightarrow> Stopped (t + POLL_INTERVAL) e dev')"

subsection \<open>Bulb: the static readers\<close>

definition bulb_is_dimmable :: "pyval \<Rightarrow> error + bool" where
  "bulb_is_dimmable sysinfo = bindE (py_getitem sysinfo ''is_dimmable'') (\<lambda>v. Inr (py_bool v))"

definition is_color :: "pyval \<Rightarrow> error + bool" where
  "is_color sysinfo = bindE (py_getitem sysinfo ''is_color'') (\<lambda>v. Inr (py_bool v))"

definition is_variable_color_temp :: "pyval \<Rightarrow> error + bool" where
  "is_variable_color_temp sysinfo =
     bindE (py_getitem sysinfo ''is_variable_color_temp'') (\<lambda>v. Inr (py_bool v))"

definition bulb_is_on :: "pyval \<Rightarrow> error + bool" where
  "bulb_is_on light_state = bindE (py_getitem light_state ''on_off'') (\<lambda>v. Inr (py_bool v))"

definition color_temp :: "pyval \<Rightarrow> error + int" where
  "color_temp light_state =
     bindE (bulb_is_on light_state) (\<lambda>on.
     bindE (if \<not> on then py_getitem light_state ''dft_on_state'' else Inr light_state) (\<lambda>st.
     bindE (py_getitem st ''color_temp'') py_int))"

definition color_mode :: "pyval \<Rightarrow> error + string" where
  "color_mode light_state =
     bindE (bulb_is_on light_state) (\<lambda>on.
     bindE (if \<not> on then py_getitem light_state ''dft_on_state'' else Inr light_state) (\<lambda>st.
     bindE (py_getitem st ''color_temp'') (\<lambda>ct.
     bindE (py_int ct) (\<lambda>n.
     if n = 0 then Inr ''color'' else Inr ''temperature''))))"

definition hsv :: "pyval \<Rightarrow> error + (pyval \<times> pyval \<times> int)" where
  "hsv light_state =
     bindE (bulb_is_on light_state) (\<lambda>on.
     bindE (if \<not> on then py_getitem light_state ''dft_on_state'' else Inr light_state) (\<lambda>st.
     bindE (py_getitem st ''hue'') (\<lambda>hue.
     bindE (py_getitem st ''saturation'') (\<lambda>saturation.
     bindE (py_getitem st ''brightness'') (\<lambda>b.
     bindE (py_mul b 255) (\<lambda>scaled.
     bindE (py_truediv scaled 100) (\<lambda>q.
     bindE (py_int q) (\<lambda>val.
     Inr (hue, saturation, val)))))))))"

definition bulb_brightness :: "pyval \<Rightarrow> error + int" where
  "bulb_brightness light_state =
     bindE (bulb_is_on light_state) (\<lambda>on.
     bindE (if \<not> on then py_getitem light_state ''dft_on_state'' else Inr light_state) (\<lambda>st.
     bindE (py_getitem st ''brightness'') py_int))"

subsection \<open>Bulb: construction\<close>

text \<open>
  \<open>AztechBulb.__init__\<close>, block by block. \<open>hsv_to_rgb\<close> belongs to \<open>pkg/util.py\<close>,
  which is not among the sources; the constructor takes it as an argument.
\<close>

text \<open>Lines 294 to 306.\<close>

definition bulb_color ::
  "(pyval \<Rightarrow> pyval \<Rightarrow> int \<Rightarrow> error + pyval) \<Rightarrow> pyval \<Rightarrow> pyval \<Rightarrow> device \<Rightarrow> error + device" where
  "bulb_color hsv_to_rgb sysinfo state d =
     bindE (is_color sysinfo) (\<lambda>colored.
     if colored then
       bindE (hsv state) (\<lambda>(h, s, v).
       bindE (hsv_to_rgb h s v) (\<lambda>rgb.
       Inr (add_property ''color''
              [(''@type'', PStr ''ColorProperty''),
               (''title'', PStr ''Color''),
               (''type'', PStr ''string'')]
              rgb (add_type ''ColorControl'' d))))
     else Inr d)"

text \<open>Lines 308 to 326.\<close>

definition bulb_color_temperature :: "kyla_dev \<Rightarrow> pyval \<Rightarrow> pyval \<Rightarrow> device \<Rightarrow> error + device" where
  "bulb_color_temperature kyla sysinfo state d =
     bindE (is_variable_color_temp sysinfo) (\<lambda>tunable.
     if tunable then
       bindE (valid_temperature_range kyla) (\<lambda>temp_range.
       bindE (py_getitem_int temp_range 0) (\<lambda>lo.
       bindE (py_getitem_int temp_range 1) (\<lambda>hi.
       bindE (color_temp state) (\<lambda>ct.
       Inr (add_property ''colorTemperature''
              [(''@type'', PStr ''ColorTemperatureProperty''),
               (''title'', PStr ''Color Temperature''),
               (''type'', PStr ''integer''),
               (''unit'', PStr ''kelvin''),
               (''minimum'', lo),
               (''maximum'', hi)]
              (PInt ct)
              (if ''ColorControl'' \<notin> set (d_type d) then add_type ''ColorControl'' d else d))))))
     else Inr d)"

text \<open>Lines 328 to 343; \<open>and\<close> evaluates its second operand only when the first is true.\<close>

definition bulb_color_mode :: "pyval \<Rightarrow> pyval \<Rightarrow> device \<Rightarrow> error + device" where
  "bulb_color_mode sysinfo state d =
     bindE (bindE (is_color sysinfo) (\<lambda>colored.
              if colored then is_variable_color_temp sysinfo else Inr False)) (\<lambda>both.
     if both then
       bindE (color_mode state) (\<lambda>mode.
       Inr (add_property ''colorMode''
              [(''@type'', PStr ''ColorModeProperty''),
               (''title'', PStr ''Color Mode''),
               (''type'', PStr ''string''),
               (''enum'', PList [PStr ''color'', PStr ''temperature'']),
               (''readOnly'', PBool True)]
              (PStr mode) d))
     else Inr d)"

text \<open>Lines 345 to 358.\<close>

definition bulb_level :: "pyval \<Rightarrow> pyval \<Rightarrow> device \<Rightarrow> error + device" where
  "bulb_level sysinfo state d =
     bindE (bulb_is_dimmable sysinfo) (\<lambda>dimmable.
     if dimmable then
       bindE (bulb_brightness state) (\<lambda>level.
       Inr (add_property ''level''
              [(''@type'', PStr ''BrightnessProperty''),
               (''title'', PStr ''Brightness''),
               (''type'', PStr ''integer''),
               (''unit'', PStr ''percent''),
               (''minimum'', PInt 0),
               (''maximum'', PInt 100)]
              (PInt level) d))
     else Inr d)"

definition bulb_init ::
  "(pyval \<Rightarrow> pyval \<Rightarrow> int \<Rightarrow> error + pyval) \<Rightarrow> kyla_dev \<Rightarrow> int \<Rightarrow> error + device" where
  "bulb_init hsv_to_rgb kyla index =
     bindE (device_init kyla index) (\<lambda>d0.
     let d1 = add_type ''Light'' (add_type ''OnOffSwitch'' d0) in
     bindE (get_light_state kyla) (\<lambda>state.
     bindE (sys_info kyla) (\<lambda>sysinfo.
     bindE (bulb_color hsv_to_rgb sysinfo state d1) (\<lambda>d2.
     bindE (bulb_color_temperature kyla sysinfo state d2) (\<lambda>d3.
     bindE (bulb_color_mode sysinfo state d3) (\<lambda>d4.
     bindE (bulb_level sysinfo state d4) (\<lambda>d5.
     bindE (get_emeter_realtime kyla) (\<lambda>emeter.
     bindE (energy_properties emeter d5) (\<lambda>d6.
     bindE (bulb_is_on state) (\<lambda>on.
     Inr (add_property ''on''
            [(''@type'', PStr ''OnOffProperty''),
             (''title'', PStr ''On/Off''),
             (''type'', PStr ''boolean'')]
            (PBool on) d6)))))))))))"

text \<open>\<open>AztechBulb.poll\<close>: one pass through the body, and the loop against a trace.\<close>

definition bulb_poll_cycle ::
  "(pyval \<Rightarrow> pyval \<Rightarrow> pyval \<Rightarrow> property \<Rightarrow> error option \<times> property)
     \<Rightarrow> kyla_dev \<Rightarrow> device \<Rightarrow> cycle" where
  "bulb_poll_cycle upd kyla dev =
     (case sys_info kyla of
        Inl e \<Rightarrow> except_SmartDeviceException e dev
      | Inr sysinfo \<Rightarrow>
          if sysinfo = PNone then Next dev
          else (case get_emeter_realtime kyla of
                  Inl e \<Rightarrow> except_SmartDeviceException e dev
                | Inr emeter \<Rightarrow>
                    (case get_light_state kyla of
                       Inl e \<Rightarrow> except_SmartDeviceException e dev
                     | Inr state \<Rightarrow> run_updates (upd sysinfo state emeter) dev)))"

fun bulb_poll ::
  "(pyval \<Rightarrow> pyval \<Rightarrow> pyval \<Rightarrow> property \<Rightarrow> error option \<times> property)
     \<Rightarrow> kyla_dev list \<Rightarrow> nat \<Rightarrow> device \<Rightarrow> poll_state" where
  "bulb_poll upd [] t dev = Polling t dev"
| "bulb_poll upd (kyla # rest) t dev =
     (case bulb_poll_cycle upd kyla dev of
        Next dev' \<Rightarrow> bulb_poll upd rest (t + POLL_INTERVAL) dev'
      | Raised e dev' \<Rightarrow> Stopped (t + POLL_INTERVAL) e dev')"

subsection \<open>Failed fetches\<close>

text \<open>
  A vendor snapshot fetch fails in a cycle: a fetch the cycle makes raises
  \<open>SmartDeviceException\<close>, or the status comes back as \<open>None\<close>. The plug fetches the
  emeter snapshot only when the status has the energy-meter feature; the bulb fetches
  the emeter snapshot and then the light state.
\<close>

definition plug_fetch_fails :: "string \<Rightarrow> kyla_dev \<Rightarrow> bool" where
  "plug_fetch_fails ene kyla =
     (case sys_info kyla of
        Inl e \<Rightarrow> e = SmartDeviceException
      | Inr sysinfo \<Rightarrow>
          sysinfo = PNone \<or>
          (has_emeter ene sysinfo = Inr True \<and> get_emeter_realtime kyla = Inl SmartDeviceException))"

definition bulb_fetch_fails :: "kyla_dev \<Rightarrow> bool" where
  "bulb_fetch_fails kyla =
     (case sys_info kyla of
        Inl e \<Rightarrow> e = SmartDeviceException
      | Inr sysinfo \<Rightarrow>
          sysinfo = PNone \<or>
          (case get_emeter_realtime kyla of
             Inl e \<Rightarrow> e = SmartDeviceException
           | Inr emeter \<Rightarrow> get_light_state kyla = Inl SmartDeviceException))"

section \<open>Reading a constructed device\<close>

text \<open>The current value of the property registered under a name, if there is one.\<close>

definition property_value :: "string \<Rightarrow> device \<Rightarrow> pyval option" where
  "property_value k dev = map_option prop_value (map_of (d_properties dev) k)"

section \<open>Example snapshots\<close>

text \<open>
  The devices the theorems below are run on, each with the device its constructor
  builds. First a dimmer whose device name marks it as a wall switch, without energy
  metering.
\<close>

definition ex_switch_sysinfo :: "(string \<times> pyval) list" where
  "ex_switch_sysinfo =
     [(''model'', PStr ''HS220''),
      (''alias'', PStr ''Hall''),
      (''dev_name'', PStr ''Wi-Fi Smart Light Switch''),
      (''feature'', PStr ''TIM''),
      (''relay_state'', PInt 0),
      (''led_off'', PInt 1),
      (''brightness'', PInt 75)]"

definition ex_switch :: kyla_dev where
  "ex_switch =
     \<lparr>sys_info = Inr (PDict ex_switch_sysinfo),
      get_emeter_realtime = Inl SmartDeviceException,
      get_light_state = Inl SmartDeviceException,
      valid_temperature_range = Inl SmartDeviceException\<rparr>"

definition ex_switch_device :: device where
  "ex_switch_device =
     \<lparr>d_type = [''OnOffSwitch'', ''MultiLevelSwitch''],
      d_index = - 1,
      d_description = PStr ''HS220'',
      d_name = PStr ''Hall'',
      d_properties =
        [(''level'',
          \<lparr>prop_name = ''level'',
           prop_description =
             [(''@type'', PStr ''LevelProperty''),
              (''title'', PStr ''Level''),
              (''type'', PStr ''integer''),
              (''unit'', PStr ''percent''),
              (''minimum'', PInt 0),
              (''maximum'', PInt 100)],
           prop_value = PInt 75\<rparr>),
         (''on'',
          \<lparr>prop_name = ''on'',
           prop_description =
             [(''@type'', PStr ''OnOffProperty''),
              (''title'', PStr ''On/Off''),
              (''type'', PStr ''boolean'')],
           prop_value = PBool False\<rparr>),
         (''led-on'',
          \<lparr>prop_name = ''led-on'',
           prop_description =
             [(''title'', PStr ''LED On/Off''),
              (''type'', PStr ''boolean'')],
           prop_value = PBool False\<rparr>)]\<rparr>"

text \<open>A single plug with energy metering, whose emeter reports the power in milliwatts.\<close>

definition ex_plug_sysinfo :: "(string \<times> pyval) list" where
  "ex_plug_sysinfo =
     [(''model'', PStr ''HS110''),
      (''alias'', PStr ''Heater''),
      (''dev_name'', PStr ''Wi-Fi Smart Plug With Energy Monitoring''),
      (''feature'', PStr ''TIM:ENE''),
      (''relay_state'', PInt 1),
      (''led_off'', PInt 0)]"

definition ex_plug :: kyla_dev where
  "ex_plug =
     \<lparr>sys_info = Inr (PDict ex_plug_sysinfo),
      get_emeter_realtime = Inr (PDict [(''power_mw'', PInt 2000)]),
      get_light_state = Inl SmartDeviceException,
      valid_temperature_range = Inl SmartDeviceException\<rparr>"

definition ex_plug_device :: device where
  "ex_plug_device =
     \<lparr>d_type = [''OnOffSwitch'', ''SmartPlug'', ''EnergyMonitor''],
      d_index = - 1,
      d_description = PStr ''HS110'',
      d_name = PStr ''Heater'',
      d_properties =
        [(''instantaneousPower'',
          \<lparr>prop_name = ''instantaneousPower'',
           prop_description =
             [(''@type'', PStr ''InstantaneousPowerProperty''),
              (''title'', PStr ''Power''),
              (''type'', PStr ''number''),
              (''unit'', PStr ''watt'')],
           prop_value = PFloat 2\<rparr>),
         (''on'',
          \<lparr>prop_name = ''on'',
           prop_description =
             [(''@type'', PStr ''OnOffProperty''),
              (''title'', PStr ''On/Off''),
              (''type'', PStr ''boolean'')],
           prop_value = PBool True\<rparr>),
         (''led-on'',
          \<lparr>prop_name = ''led-on'',
           prop_description =
             [(''title'', PStr ''LED On/Off''),
              (''type'', PStr ''boolean'')],
           prop_value = PBool True\<rparr>)]\<rparr>"

text \<open>A power strip; the device is its second outlet, index 1.\<close>

definition ex_strip_sysinfo :: "(string \<times> pyval) list" where
  "ex_strip_sysinfo =
     [(''model'', PStr ''HS300''),
      (''alias'', PStr ''Desk''),
      (''children'',
       PList [PDict [(''alias'', PStr ''Lamp''), (''state'', PInt 0)],
              PDict [(''alias'', PStr ''Fan''), (''state'', PInt 1)]]),
      (''feature'', PStr ''TIM:ENE''),
      (''led_off'', PInt 0)]"

definition ex_strip :: kyla_dev where
  "ex_strip =
     \<lparr>sys_info = Inr (PDict ex_strip_sysinfo),
      get_emeter_realtime = Inr (PDict [(''voltage'', PInt 230)]),
      get_light_state = Inl SmartDeviceException,
      valid_temperature_range = Inl SmartDeviceException\<rparr>"

definition ex_strip_device :: device where
  "ex_strip_device =
     \<lparr>d_type = [''OnOffSwitch'', ''SmartPlug''],
      d_index = 1,
      d_description = PStr ''HS300'',
      d_name = PStr ''Fan'',
      d_properties =
        [(''voltage'',
          \<lparr>prop_name = ''voltage'',
           prop_description =
             [(''@type'', PStr ''VoltageProperty''),
              (''title'', PStr ''Voltage''),
              (''type'', PStr ''number''),
              (''unit'', PStr ''volt'')],
           prop_value = PInt 230\<rparr>),
         (''on'',
          \<lparr>prop_name = ''on'',
           prop_description =
             [(''@type'', PStr ''OnOffProperty''),
              (''title'', PStr ''On/Off''),
              (''type'', PStr ''boolean'')],
           prop_value = PBool True\<rparr>),
         (''led-on'',
          \<lparr>prop_name = ''led-on'',
           prop_description =
             [(''title'', PStr ''LED On/Off''),
              (''type'', PStr ''boolean'')],
           prop_value = PBool True\<rparr>)]\<rparr>"

text \<open>
  The metered plug with an emeter snapshot that has a voltage and no power.
\<close>

definition ex_no_power :: kyla_dev where
  "ex_no_power = ex_plug\<lparr>get_emeter_realtime := Inr (PDict [(''voltage'', PInt 230)])\<rparr>"

text \<open>
  A colour bulb with tunable white that is switched off: its light state is the one of
  the specification's example; and the same light with stale values at the top level.
\<close>

definition ex_light_state :: "(string \<times> pyval) list" where
  "ex_light_state =
     [(''on_off'', PInt 0),
      (''dft_on_state'',
       PDict [(''hue'', PInt 120), (''saturation'', PInt 50),
              (''brightness'', PInt 80), (''color_temp'', PInt 0)])]"

definition ex_light_state_stale :: "(string \<times> pyval) list" where
  "ex_light_state_stale =
     [(''on_off'', PInt 0),
      (''hue'', PInt 0), (''saturation'', PInt 0),
      (''brightness'', PInt 0), (''color_temp'', PInt 2700),
      (''dft_on_state'',
       PDict [(''hue'', PInt 120), (''saturation'', PInt 50),
              (''brightness'', PInt 80), (''color_temp'', PInt 0)])]"

definition ex_light_state_on :: "(string \<times> pyval) list" where
  "ex_light_state_on =
     [(''on_off'', PInt 1),
      (''hue'', PInt 0), (''saturation'', PInt 0),
      (''brightness'', PInt 40), (''color_temp'', PInt 2700),
      (''dft_on_state'',
       PDict [(''hue'', PInt 120), (''saturation'', PInt 50),
              (''brightness'', PInt 80), (''color_temp'', PInt 0)])]"

text \<open>
  The bulb of the examples: colour and tunable white, dimmable, switched off. In the
  examples \<open>hsv_to_rgb\<close> is the function that gives the colour of this light.
\<close>

definition ex_bulb_sysinfo :: "(string \<times> pyval) list" where
  "ex_bulb_sysinfo =
     [(''model'', PStr ''LB130''),
      (''alias'', PStr ''Desk''),
      (''is_dimmable'', PInt 1),
      (''is_color'', PInt 1),
      (''is_variable_color_temp'', PInt 1)]"

definition ex_bulb :: kyla_dev where
  "ex_bulb =
     \<lparr>sys_info = Inr (PDict ex_bulb_sysinfo),
      get_emeter_realtime = Inr (PDict [(''power_mw'', PInt 1500)]),
      get_light_state = Inr (PDict ex_light_state),
      valid_temperature_range = Inr (PList [PInt 2500, PInt 9000])\<rparr>"

definition ex_hsv_to_rgb :: "pyval \<Rightarrow> pyval \<Rightarrow> int \<Rightarrow> error + pyval" where
  "ex_hsv_to_rgb h s v = Inr (PStr ''#66cc66'')"

definition ex_bulb_device :: device where
  "ex_bulb_device =
     \<lparr>d_type = [''OnOffSwitch'', ''Light'', ''ColorControl'', ''EnergyMonitor''],
      d_index = - 1,
      d_description = PStr ''LB130'',
      d_name = PStr ''Desk'',
      d_properties =
        [(''color'',
          \<lparr>prop_name = ''color'',
           prop_description =
             [(''@type'', PStr ''ColorProperty''),
              (''title'', PStr ''Color''),
              (''type'', PStr ''string'')],
           prop_value = PStr ''#66cc66''\<rparr>),
         (''colorTemperature'',
          \<lparr>prop_name = ''colorTemperature'',
           prop_description =
             [(''@type'', PStr ''ColorTemperatureProperty''),
              (''title'', PStr ''Color Temperature''),
              (''type'', PStr ''integer''),
              (''unit'', PStr ''kelvin''),
              (''minimum'', PInt 2500),
              (''maximum'', PInt 9000)],
           prop_value = PInt 0\<rparr>),
         (''colorMode'',
          \<lparr>prop_name = ''colorMode'',
           prop_description =
             [(''@type'', PStr ''ColorModeProperty''),
              (''title'', PStr ''Color Mode''),
              (''type'', PStr ''string''),
              (''enum'', PList [PStr ''color'', PStr ''temperature'']),
              (''readOnly'', PBool True)],
           prop_value = PStr ''color''\<rparr>),
         (''level'',
          \<lparr>prop_name = ''level'',
           prop_description =
             [(''@type'', PStr ''BrightnessProperty''),
              (''title'', PStr ''Brightness''),
              (''type'', PStr ''integer''),
              (''unit'', PStr ''percent''),
              (''minimum'', PInt 0),
              (''maximum'', PInt 100)],
           prop_value = PInt 80\<rparr>),
         (''instantaneousPower'',
          \<lparr>prop_name = ''instantaneousPower'',
           prop_description =
             [(''@type'', PStr ''InstantaneousPowerProperty''),
              (''title'', PStr ''Power''),
              (''type'', PStr ''number''),
              (''unit'', PStr ''watt'')],
           prop_value = PFloat (3 / 2)\<rparr>),
         (''on'',
          \<lparr>prop_name = ''on'',
           prop_description =
             [(''@type'', PStr ''OnOffProperty''),
              (''title'', PStr ''On/Off''),
              (''type'', PStr ''boolean'')],
           prop_value = PBool False\<rparr>)]\<rparr>"

text \<open>A bulb with tunable white and no colour.\<close>

definition ex_white_sysinfo :: "(string \<times> pyval) list" where
  "ex_white_sysinfo =
     [(''model'', PStr ''LB120''),
      (''alias'', PStr ''Porch''),
      (''is_dimmable'', PInt 1),
      (''is_color'', PInt 0),
      (''is_variable_color_temp'', PInt 1)]"

definition ex_white :: kyla_dev where
  "ex_white =
     \<lparr>sys_info = Inr (PDict ex_white_sysinfo),
      get_emeter_realtime = Inr (PDict []),
      get_light_state = Inr (PDict ex_light_state_on),
      valid_temperature_range = Inr (PList [PInt 2700, PInt 6500])\<rparr>"

definition ex_white_device :: device where
  "ex_white_device =
     \<lparr>d_type = [''OnOffSwitch'', ''Light'', ''ColorControl''],
      d_index = - 1,
      d_description = PStr ''LB120'',
      d_name = PStr ''Porch'',
      d_properties =
        [(''colorTemperature'',
          \<lparr>prop_name = ''colorTemperature'',
           prop_description =
             [(''@type'', PStr ''ColorTemperatureProperty''),
              (''title'', PStr ''Color Temperature''),
              (''type'', PStr ''integer''),
              (''unit'', PStr ''kelvin''),
              (''minimum'', PInt 2700),
              (''maximum'', PInt 6500)],
           prop_value = PInt 2700\<rparr>),
         (''level'',
          \<lparr>prop_name = ''level'',
           prop_description =
             [(''@type'', PStr ''BrightnessProperty''),
              (''title'', PStr ''Brightness''),
              (''type'', PStr ''integer''),
              (''unit'', PStr ''percent''),
              (''minimum'', PInt 0),
              (''maximum'', PInt 100)],
           prop_value = PInt 40\<rparr>),
         (''on'',
          \<lparr>prop_name = ''on'',
           prop_description =
             [(''@type'', PStr ''OnOffProperty''),
              (''title'', PStr ''On/Off''),
              (''type'', PStr ''boolean'')],
           prop_value = PBool True\<rparr>)]\<rparr>"

text \<open>
  A device that does not answer, a plug whose emeter read fails, and a bulb whose
  light-state read fails.
\<close>

definition ex_down :: kyla_dev where
  "ex_down =
     \<lparr>sys_info = Inl SmartDeviceException,
      get_emeter_realtime = Inl SmartDeviceException,
      get_light_state = Inl SmartDeviceException,
      valid_temperature_range = Inl SmartDeviceException\<rparr>"

definition ex_emeter_down :: kyla_dev where
  "ex_emeter_down = ex_plug\<lparr>get_emeter_realtime := Inl SmartDeviceException\<rparr>"

definition ex_light_down :: kyla_dev where
  "ex_light_down = ex_bulb\<lparr>get_light_state := Inl SmartDeviceException\<rparr>"

text \<open>An update that overwrites every value, so that a skipped cycle shows.\<close>

definition ex_update :: "pyval \<Rightarrow> property \<Rightarrow> error option \<times> property" where
  "ex_update v p = (None, p\<lparr>prop_value := v\<rparr>)"

section \<open>Auxiliary facts\<close>

text \<open>
  What a successful computation says about its parts, and what each block of the
  constructors does to the type list and to the properties.
\<close>

lemma bindE_Inr: "bindE m f = Inr y \<longleftrightarrow> (\<exists>x. m = Inr x \<and> f x = Inr y)"
  by (cases m) (simp_all add: bindE_def)

lemma str_contains_sublist: "str_contains n h \<longleftrightarrow> sublist n h"
  by (induction h) (auto simp: sublist_Cons_right)

lemma py_getitem_Inr: "py_getitem v k = Inr x \<longleftrightarrow> (\<exists>d. v = PDict d \<and> map_of d k = Some x)"
  by (cases v) (auto split: option.splits)

lemma d_type_add_type [simp]: "d_type (add_type t d) = d_type d @ [t]"
  by (simp add: add_type_def)

lemma d_properties_add_type [simp]: "d_properties (add_type t d) = d_properties d"
  by (simp add: add_type_def)

lemma d_type_add_property [simp]: "d_type (add_property n de v d) = d_type d"
  by (simp add: add_property_def)

lemma map_of_add_property [simp]:
  "map_of (d_properties (add_property n de v d)) =
     (map_of (d_properties d))(n \<mapsto> \<lparr>prop_name = n, prop_description = de, prop_value = v\<rparr>)"
  by (simp add: add_property_def update_conv')

lemma device_init_Inr:
  "device_init kyla index = Inr d0 \<Longrightarrow> d_type d0 = [] \<and> d_properties d0 = [] \<and> (\<exists>d. sys_info kyla = Inr (PDict d))"
  apply (simp add: device_init_def bindE_Inr py_getitem_Inr)
  apply (elim exE conjE)
  apply auto
  done

lemma bindE_simps [simp]: "bindE (Inl e) f = Inl e" "bindE (Inr x) f = f x"
  by (simp_all add: bindE_def)

lemma bindE_InrE:
  assumes "bindE m f = Inr y"
  obtains x where "m = Inr x" and "f x = Inr y"
  using assms by (cases m) simp_all

lemma property_value_add_property [simp]:
  "property_value k (add_property n de v d) = (if k = n then Some v else property_value k d)"
  by (simp add: property_value_def)

lemma property_value_add_type [simp]: "property_value k (add_type t d) = property_value k d"
  by (simp add: property_value_def)

lemma energy_properties_InrE:
  assumes "energy_properties emeter d = Inr d'"
  obtains p v c where
    "power_emeter emeter = Inr p" "voltage emeter = Inr v" "current emeter = Inr c"
    "d_type d' = d_type d @ (if p \<noteq> PNone then [''EnergyMonitor''] else [])"
    "property_value ''instantaneousPower'' d' =
       (if p \<noteq> PNone then Some p else property_value ''instantaneousPower'' d)"
    "property_value ''voltage'' d' = (if v \<noteq> PNone then Some v else property_value ''voltage'' d)"
    "property_value ''current'' d' = (if c \<noteq> PNone then Some c else property_value ''current'' d)"
    "\<And>k. k \<notin> {''instantaneousPower'', ''voltage'', ''current''} \<Longrightarrow>
       map_of (d_properties d') k = map_of (d_properties d) k"
proof -
  from assms obtain p where p: "power_emeter emeter = Inr p"
    unfolding energy_properties_def by (elim bindE_InrE)
  from assms p obtain v where v: "voltage emeter = Inr v"
    unfolding energy_properties_def Let_def by (simp, elim bindE_InrE)
  from assms p v obtain c where c: "current emeter = Inr c"
    unfolding energy_properties_def Let_def by (simp, elim bindE_InrE)
  from assms have d': "Inr d' = energy_properties emeter d"
    by simp
  show thesis
    apply (rule that[OF p v c])
    using d'
    apply (cases "p = PNone"; cases "v = PNone"; cases "c = PNone";
           simp add: p v c energy_properties_def Let_def)+
    done
qed

lemma plug_level_InrE:
  assumes "plug_level sysinfo d = Inr d'"
  obtains (dimmable) n where
      "plug_is_dimmable sysinfo = Inr True" "plug_brightness sysinfo = Inr n"
      "d' = add_property ''level''
              [(''@type'', PStr ''LevelProperty''),
               (''title'', PStr ''Level''),
               (''type'', PStr ''integer''),
               (''unit'', PStr ''percent''),
               (''minimum'', PInt 0),
               (''maximum'', PInt 100)]
              (PInt n) (add_type ''MultiLevelSwitch'' d)"
    | (fixed) "plug_is_dimmable sysinfo = Inr False" "d' = d"
proof -
  from assms obtain dim where dim: "plug_is_dimmable sysinfo = Inr dim"
    unfolding plug_level_def by (elim bindE_InrE)
  show thesis
  proof (cases dim)
    case True
    with assms dim obtain n where n: "plug_brightness sysinfo = Inr n"
      unfolding plug_level_def by (simp, elim bindE_InrE)
    from assms show thesis
      by (intro dimmable[of n]) (simp_all add: plug_level_def dim True n)
  next
    case False
    from assms show thesis
      by (intro fixed) (simp_all add: plug_level_def dim False)
  qed
qed

lemma plug_init_InrE:
  assumes "plug_init ene kyla index = Inr dev"
  obtains d0 sysinfo plug metered d3 d4 on led where
    "device_init kyla index = Inr d0"
    "sys_info kyla = Inr sysinfo"
    "not_light_switch sysinfo = Inr plug"
    "has_emeter ene sysinfo = Inr metered"
    "(if metered then
        bindE (get_emeter_realtime kyla) (\<lambda>emeter. energy_properties emeter
          (if plug then add_type ''SmartPlug'' (add_type ''OnOffSwitch'' d0) else add_type ''OnOffSwitch'' d0))
      else Inr (if plug then add_type ''SmartPlug'' (add_type ''OnOffSwitch'' d0) else add_type ''OnOffSwitch'' d0))
     = Inr d3"
    "plug_level sysinfo d3 = Inr d4"
    "plug_is_on index sysinfo = Inr on"
    "is_led_on sysinfo = Inr led"
    "dev = add_property ''led-on''
            [(''title'', PStr ''LED On/Off''),
             (''type'', PStr ''boolean'')]
            (PBool led) (add_property ''on''
                [(''@type'', PStr ''OnOffProperty''),
                 (''title'', PStr ''On/Off''),
                 (''type'', PStr ''boolean'')]
                (PBool on) d4)"
  using assms unfolding plug_init_def Let_def
  apply (elim bindE_InrE)
  apply (erule that)
  apply assumption+
  apply simp
  done

lemma property_value_None: "d_properties d = [] \<Longrightarrow> property_value k d = None"
  by (simp add: property_value_def)

text \<open>Everything that a successful construction of a plug determines.\<close>

lemma plug_init_summary:
  assumes "plug_init ene kyla index = Inr dev"
  obtains sysinfo plug metered p v c dim on led where
    "sys_info kyla = Inr sysinfo"
    "not_light_switch sysinfo = Inr plug"
    "has_emeter ene sysinfo = Inr metered"
    "metered \<Longrightarrow> \<exists>em. get_emeter_realtime kyla = Inr em \<and> power_emeter em = Inr p
                       \<and> voltage em = Inr v \<and> current em = Inr c"
    "\<not> metered \<Longrightarrow> p = PNone \<and> v = PNone \<and> c = PNone"
    "plug_is_dimmable sysinfo = Inr dim"
    "plug_is_on index sysinfo = Inr on"
    "is_led_on sysinfo = Inr led"
    "d_type dev = ''OnOffSwitch'' # (if plug then [''SmartPlug''] else [])
                    @ (if p \<noteq> PNone then [''EnergyMonitor''] else [])
                    @ (if dim then [''MultiLevelSwitch''] else [])"
    "property_value ''instantaneousPower'' dev = (if p \<noteq> PNone then Some p else None)"
    "property_value ''voltage'' dev = (if v \<noteq> PNone then Some v else None)"
    "property_value ''current'' dev = (if c \<noteq> PNone then Some c else None)"
    "dim \<Longrightarrow> \<exists>n. plug_brightness sysinfo = Inr n \<and>
              map_of (d_properties dev) ''level'' =
                Some \<lparr>prop_name = ''level'',
                      prop_description =
                        [(''@type'', PStr ''LevelProperty''),
                         (''title'', PStr ''Level''),
                         (''type'', PStr ''integer''),
                         (''unit'', PStr ''percent''),
                         (''minimum'', PInt 0),
                         (''maximum'', PInt 100)],
                      prop_value = PInt n\<rparr>"
    "\<not> dim \<Longrightarrow> map_of (d_properties dev) ''level'' = None"
    "property_value ''on'' dev = Some (PBool on)"
    "property_value ''led-on'' dev = Some (PBool led)"
proof -
  from assms obtain d0 sysinfo plug metered d3 d4 on led where
    d0: "device_init kyla index = Inr d0"
    and si: "sys_info kyla = Inr sysinfo"
    and plug: "not_light_switch sysinfo = Inr plug"
    and metered: "has_emeter ene sysinfo = Inr metered"
    and d3: "(if metered then
        bindE (get_emeter_realtime kyla) (\<lambda>emeter. energy_properties emeter
          (if plug then add_type ''SmartPlug'' (add_type ''OnOffSwitch'' d0) else add_type ''OnOffSwitch'' d0))
      else Inr (if plug then add_type ''SmartPlug'' (add_type ''OnOffSwitch'' d0) else add_type ''OnOffSwitch'' d0))
     = Inr d3"
    and d4: "plug_level sysinfo d3 = Inr d4"
    and on: "plug_is_on index sysinfo = Inr on"
    and led: "is_led_on sysinfo = Inr led"
    and dev: "dev = add_property ''led-on''
            [(''title'', PStr ''LED On/Off''),
             (''type'', PStr ''boolean'')]
            (PBool led) (add_property ''on''
                [(''@type'', PStr ''OnOffProperty''),
                 (''title'', PStr ''On/Off''),
                 (''type'', PStr ''boolean'')]
                (PBool on) d4)"
    by (rule plug_init_InrE)
  define d2 where
    "d2 = (if plug then add_type ''SmartPlug'' (add_type ''OnOffSwitch'' d0) else add_type ''OnOffSwitch'' d0)"
  from device_init_Inr[OF d0] have d0': "d_type d0 = []" "d_properties d0 = []"
    by simp_all
  have d2t: "d_type d2 = ''OnOffSwitch'' # (if plug then [''SmartPlug''] else [])"
    and d2p: "d_properties d2 = []"
    by (simp_all add: d2_def d0')
  from d3 have d3': "(if metered then bindE (get_emeter_realtime kyla) (\<lambda>emeter. energy_properties emeter d2)
                      else Inr d2) = Inr d3"
    by (simp only: d2_def)
  obtain p v c where
    pvc1: "metered \<Longrightarrow> \<exists>em. get_emeter_realtime kyla = Inr em \<and> power_emeter em = Inr p
                       \<and> voltage em = Inr v \<and> current em = Inr c"
    and pvc2: "\<not> metered \<Longrightarrow> p = PNone \<and> v = PNone \<and> c = PNone"
    and d3t: "d_type d3 = d_type d2 @ (if p \<noteq> PNone then [''EnergyMonitor''] else [])"
    and d3p: "property_value ''instantaneousPower'' d3 = (if p \<noteq> PNone then Some p else None)"
    and d3v: "property_value ''voltage'' d3 = (if v \<noteq> PNone then Some v else None)"
    and d3c: "property_value ''current'' d3 = (if c \<noteq> PNone then Some c else None)"
    and d3k: "\<And>k. k \<notin> {''instantaneousPower'', ''voltage'', ''current''} \<Longrightarrow>
                 map_of (d_properties d3) k = None"
  proof (cases metered)
    case True
    with d3' obtain em where em: "get_emeter_realtime kyla = Inr em"
      and e: "energy_properties em d2 = Inr d3"
      by (simp, elim bindE_InrE)
    from e show thesis
    proof (rule energy_properties_InrE)
      fix p v c
      assume "power_emeter em = Inr p" "voltage em = Inr v" "current em = Inr c"
        "d_type d3 = d_type d2 @ (if p \<noteq> PNone then [''EnergyMonitor''] else [])"
        "property_value ''instantaneousPower'' d3 =
           (if p \<noteq> PNone then Some p else property_value ''instantaneousPower'' d2)"
        "property_value ''voltage'' d3 = (if v \<noteq> PNone then Some v else property_value ''voltage'' d2)"
        "property_value ''current'' d3 = (if c \<noteq> PNone then Some c else property_value ''current'' d2)"
        "\<And>k. k \<notin> {''instantaneousPower'', ''voltage'', ''current''} \<Longrightarrow>
           map_of (d_properties d3) k = map_of (d_properties d2) k"
      then show thesis
        using True em
        by (intro that[of p v c]) (simp_all add: property_value_None[OF d2p] d2p)
    qed
  next
    case False
    with d3' have "d3 = d2" by simp
    then show thesis
      using False
      by (intro that[of PNone PNone PNone]) (simp_all add: property_value_None[OF d2p] d2p)
  qed
  have devt: "d_type dev = d_type d4"
    and devp: "\<And>k. k \<noteq> ''on'' \<Longrightarrow> k \<noteq> ''led-on'' \<Longrightarrow> property_value k dev = property_value k d4"
    and devm: "\<And>k. k \<noteq> ''on'' \<Longrightarrow> k \<noteq> ''led-on'' \<Longrightarrow>
                 map_of (d_properties dev) k = map_of (d_properties d4) k"
    and devon: "property_value ''on'' dev = Some (PBool on)"
    and devled: "property_value ''led-on'' dev = Some (PBool led)"
    by (simp_all add: dev)
  from d4 show thesis
  proof (cases rule: plug_level_InrE)
    case (dimmable n)
    have "property_value k d4 = property_value k d3" if "k \<noteq> ''level''" for k
      using that by (simp add: dimmable)
    then show thesis
      using si plug metered pvc1 pvc2 on led devon devled dimmable(1,2)
      by (intro that[of sysinfo plug metered p v c True on led])
         (simp_all add: devt devp devm d3t d2t d3p d3v d3c dimmable(3))
  next
    case fixed
    then show thesis
      using si plug metered pvc1 pvc2 on led devon devled
      by (intro that[of sysinfo plug metered p v c False on led])
         (simp_all add: devt devp devm d3t d2t d3p d3v d3c d3k)
  qed
qed

lemma py_getitem_InrE:
  assumes "py_getitem v k = Inr x"
  obtains d where "v = PDict d" and "map_of d k = Some x"
  using assms by (cases v) (simp_all split: option.splits)

lemma lookup_Inr [simp]:
  "((case m of None \<Rightarrow> Inl e | Some v \<Rightarrow> Inr v) = Inr x) = (m = Some x)"
  by (cases m) simp_all

lemma has_emeter_InrE:
  assumes "has_emeter ene (PDict si) = Inr metered"
  obtains f where "map_of si ''feature'' = Some (PStr f)"
    and "metered = (ene \<in> set (split_on CHR '':'' f))"
proof -
  from assms obtain v where v: "map_of si ''feature'' = Some v"
    and r: "(case v of PStr s \<Rightarrow> Inr (ene \<in> set (split_on CHR '':'' s)) | _ \<Rightarrow> Inl AttributeError)
            = Inr metered"
    unfolding has_emeter_def by (elim bindE_InrE py_getitem_InrE) simp
  from r obtain f where "v = PStr f" and "metered = (ene \<in> set (split_on CHR '':'' f))"
    by (cases v) auto
  with v show thesis
    by (intro that[of f]) simp_all
qed

lemma not_light_switch_dict:
  "not_light_switch (PDict si) =
     (case map_of si ''dev_name'' of
        None \<Rightarrow> Inr True
      | Some dn \<Rightarrow> bindE (py_in ''Light Switch'' dn) (\<lambda>sw. Inr (\<not> sw)))"
  by (simp add: not_light_switch_def split: option.splits)

lemma not_light_switch_Inr:
  assumes "not_light_switch (PDict si) = Inr plug"
  shows "plug \<longleftrightarrow> (\<forall>dn. map_of si ''dev_name'' = Some dn \<longrightarrow> py_in ''Light Switch'' dn = Inr False)"
proof (cases "map_of si ''dev_name''")
  case None
  with assms show ?thesis
    by (simp add: not_light_switch_dict)
next
  case (Some dn)
  with assms obtain sw where "py_in ''Light Switch'' dn = Inr sw" and "plug = (\<not> sw)"
    unfolding not_light_switch_dict by (simp, elim bindE_InrE) simp
  with Some show ?thesis
    by simp
qed

lemma plug_brightness_InrE:
  assumes "plug_brightness (PDict si) = Inr n"
  obtains b where "map_of si ''brightness'' = Some b" and "py_int b = Inr n"
  using assms unfolding plug_brightness_def
  by (elim bindE_InrE py_getitem_InrE) simp

lemma is_led_on_InrE:
  assumes "is_led_on (PDict si) = Inr led"
  obtains off where "map_of si ''led_off'' = Some off"
    and "led = (off \<notin> {PInt 1, PBool True, PFloat 1})"
    and "off \<in> range PBool \<union> range PInt \<union> range PFloat"
proof -
  from assms obtain off v where off: "map_of si ''led_off'' = Some off"
    and v: "py_rsub 1 off = Inr v" and led: "led = py_bool v"
    unfolding is_led_on_def by (elim bindE_InrE py_getitem_InrE) simp
  from v led have "led = (off \<notin> {PInt 1, PBool True, PFloat 1})"
    and "off \<in> range PBool \<union> range PInt \<union> range PFloat"
    by (cases off; auto)+
  with off show thesis
    by (rule that)
qed

lemma plug_is_on_InrE:
  assumes "plug_is_on index (PDict si) = Inr on"
  obtains (child) cs child st where "0 \<le> index"
      "map_of si ''children'' = Some (PList cs)" "nat index < length cs"
      "cs ! nat index = PDict child" "map_of child ''state'' = Some st" "on = py_bool st"
    | (relay) st where "index < 0" "map_of si ''relay_state'' = Some st" "on = py_bool st"
proof (cases "0 \<le> index")
  case True
  with assms obtain children child st where
    ch: "map_of si ''children'' = Some children"
    and c: "py_getitem_int children index = Inr (PDict child)"
    and st: "map_of child ''state'' = Some st" and on: "on = py_bool st"
    unfolding plug_is_on_def by (simp, elim bindE_InrE py_getitem_InrE) auto
  from c True obtain cs where "children = PList cs" "nat index < length cs"
    "cs ! nat index = PDict child"
    by (cases children) (auto simp: seq_index_def split: if_splits sum.splits)
  with ch st on True show thesis
    by (intro child[of cs child st]) simp_all
next
  case False
  with assms obtain st where "map_of si ''relay_state'' = Some st" "on = py_bool st"
    unfolding plug_is_on_def by (simp, elim bindE_InrE py_getitem_InrE) simp
  with False show thesis
    by (intro relay[of st]) simp_all
qed

text \<open>The constructor on the example plugs.\<close>

lemma ex_switch_init: "plug_init ''ENE'' ex_switch (- 1) = Inr ex_switch_device"
  by code_simp

lemma ex_plug_init: "plug_init ''ENE'' ex_plug (- 1) = Inr ex_plug_device"
  by code_simp

lemma ex_strip_init: "plug_init ''ENE'' ex_strip 1 = Inr ex_strip_device"
  by code_simp

section \<open>The plug's capability tags and properties\<close>

text \<open>
  C6. A constructed plug carries the \<open>SmartPlug\<close> tag exactly when the test
  \<open>'Light Switch' in sysinfo['dev_name']\<close> is false or there is no \<open>dev_name\<close>: a
  status without the field receives the tag, and a status whose device name is a string
  receives it exactly when the name does not contain \<open>Light Switch\<close>.
\<close>

theorem smart_plug_tag:
  assumes "plug_init ene kyla index = Inr dev" and "sys_info kyla = Inr (PDict si)"
  shows "(''SmartPlug'' \<in> set (d_type dev) \<longleftrightarrow>
            (\<forall>dn. map_of si ''dev_name'' = Some dn \<longrightarrow> py_in ''Light Switch'' dn = Inr False))
       \<and> (map_of si ''dev_name'' = None \<longrightarrow> ''SmartPlug'' \<in> set (d_type dev))
       \<and> (\<forall>s. map_of si ''dev_name'' = Some (PStr s) \<longrightarrow>
             (''SmartPlug'' \<in> set (d_type dev) \<longleftrightarrow> \<not> sublist ''Light Switch'' s))"
proof -
  from assms(1) obtain sysinfo plug p dim where
    "sys_info kyla = Inr sysinfo"
    and plug: "not_light_switch sysinfo = Inr plug"
    and "d_type dev = ''OnOffSwitch'' # (if plug then [''SmartPlug''] else [])
                    @ (if p \<noteq> PNone then [''EnergyMonitor''] else [])
                    @ (if dim then [''MultiLevelSwitch''] else [])"
    by (elim plug_init_summary) (rule that, assumption+)
  with assms(2) have si: "sysinfo = PDict si" and tag: "''SmartPlug'' \<in> set (d_type dev) \<longleftrightarrow> plug"
    by simp_all
  from plug have "plug \<longleftrightarrow>
      (\<forall>dn. map_of si ''dev_name'' = Some dn \<longrightarrow> py_in ''Light Switch'' dn = Inr False)"
    unfolding si by (rule not_light_switch_Inr)
  with tag show ?thesis
    by (simp add: str_contains_sublist)
qed

theorem smart_plug_tag_witness:
  "plug_init ''ENE'' ex_switch (- 1) = Inr ex_switch_device
   \<and> sys_info ex_switch = Inr (PDict ex_switch_sysinfo)
   \<and> map_of ex_switch_sysinfo ''dev_name'' = Some (PStr ''Wi-Fi Smart Light Switch'')
   \<and> sublist ''Light Switch'' ''Wi-Fi Smart Light Switch''
   \<and> ''SmartPlug'' \<notin> set (d_type ex_switch_device)
   \<and> plug_init ''ENE'' ex_plug (- 1) = Inr ex_plug_device
   \<and> sys_info ex_plug = Inr (PDict ex_plug_sysinfo)
   \<and> map_of ex_plug_sysinfo ''dev_name'' = Some (PStr ''Wi-Fi Smart Plug With Energy Monitoring'')
   \<and> \<not> sublist ''Light Switch'' ''Wi-Fi Smart Plug With Energy Monitoring''
   \<and> ''SmartPlug'' \<in> set (d_type ex_plug_device)
   \<and> plug_init ''ENE'' ex_strip 1 = Inr ex_strip_device
   \<and> sys_info ex_strip = Inr (PDict ex_strip_sysinfo)
   \<and> map_of ex_strip_sysinfo ''dev_name'' = None
   \<and> ''SmartPlug'' \<in> set (d_type ex_strip_device)"
proof -
  have sys: "sys_info ex_switch = Inr (PDict ex_switch_sysinfo)"
    by (simp add: ex_switch_def)
  have dn: "map_of ex_switch_sysinfo ''dev_name'' = Some (PStr ''Wi-Fi Smart Light Switch'')"
    by (simp add: ex_switch_sysinfo_def)
  have sub: "sublist ''Light Switch'' ''Wi-Fi Smart Light Switch''"
    by (simp add: str_contains_sublist[symmetric])
  from smart_plug_tag[OF ex_switch_init sys] dn sub
  have a: "''SmartPlug'' \<notin> set (d_type ex_switch_device)"
    by simp
  have sys': "sys_info ex_plug = Inr (PDict ex_plug_sysinfo)"
    by (simp add: ex_plug_def)
  have dn': "map_of ex_plug_sysinfo ''dev_name'' = Some (PStr ''Wi-Fi Smart Plug With Energy Monitoring'')"
    by (simp add: ex_plug_sysinfo_def)
  have sub': "\<not> sublist ''Light Switch'' ''Wi-Fi Smart Plug With Energy Monitoring''"
    by (simp add: str_contains_sublist[symmetric])
  from smart_plug_tag[OF ex_plug_init sys'] dn' sub'
  have b: "''SmartPlug'' \<in> set (d_type ex_plug_device)"
    by simp
  have sys'': "sys_info ex_strip = Inr (PDict ex_strip_sysinfo)"
    by (simp add: ex_strip_def)
  have dn'': "map_of ex_strip_sysinfo ''dev_name'' = None"
    by (simp add: ex_strip_sysinfo_def)
  from smart_plug_tag[OF ex_strip_init sys''] dn''
  have c: "''SmartPlug'' \<in> set (d_type ex_strip_device)"
    by simp
  from ex_switch_init sys dn sub a ex_plug_init sys' dn' sub' b ex_strip_init sys'' dn'' c
  show ?thesis
    by (intro conjI)
qed

text \<open>
  C7. The value of the plug's \<open>on\<close> property is the truth value of
  \<open>sysinfo['children'][index]['state']\<close> when the index is at least 0, and of
  \<open>sysinfo['relay_state']\<close> otherwise.
\<close>

theorem plug_on_value:
  assumes "plug_init ene kyla index = Inr dev" and "sys_info kyla = Inr (PDict si)"
  shows "(0 \<le> index \<longrightarrow>
            (\<exists>cs child st. map_of si ''children'' = Some (PList cs) \<and> nat index < length cs
               \<and> cs ! nat index = PDict child \<and> map_of child ''state'' = Some st
               \<and> property_value ''on'' dev = Some (PBool (py_bool st))))
       \<and> (index < 0 \<longrightarrow>
            (\<exists>st. map_of si ''relay_state'' = Some st
               \<and> property_value ''on'' dev = Some (PBool (py_bool st))))"
proof -
  from assms(1) obtain sysinfo on where
    "sys_info kyla = Inr sysinfo"
    and "plug_is_on index sysinfo = Inr on"
    and v: "property_value ''on'' dev = Some (PBool on)"
    by (elim plug_init_summary) (rule that, assumption+)
  with assms(2) have "plug_is_on index (PDict si) = Inr on"
    by simp
  then show ?thesis
  proof (cases rule: plug_is_on_InrE)
    case (child cs child st)
    with v show ?thesis
      by (intro conjI impI exI[of _ cs] exI[of _ child] exI[of _ st]) simp_all
  next
    case (relay st)
    with v show ?thesis
      by (intro conjI impI exI[of _ st]) simp_all
  qed
qed

theorem plug_on_value_witness:
  "plug_init ''ENE'' ex_plug (- 1) = Inr ex_plug_device
   \<and> sys_info ex_plug = Inr (PDict ex_plug_sysinfo)
   \<and> map_of ex_plug_sysinfo ''relay_state'' = Some (PInt 1)
   \<and> property_value ''on'' ex_plug_device = Some (PBool (py_bool (PInt 1)))
   \<and> plug_init ''ENE'' ex_strip 1 = Inr ex_strip_device
   \<and> sys_info ex_strip = Inr (PDict ex_strip_sysinfo)
   \<and> (\<exists>cs child. map_of ex_strip_sysinfo ''children'' = Some (PList cs)
         \<and> cs ! 1 = PDict child \<and> map_of child ''state'' = Some (PInt 1))
   \<and> property_value ''on'' ex_strip_device = Some (PBool (py_bool (PInt 1)))"
proof -
  have sys: "sys_info ex_plug = Inr (PDict ex_plug_sysinfo)"
    by (simp add: ex_plug_def)
  have relay: "map_of ex_plug_sysinfo ''relay_state'' = Some (PInt 1)"
    by (simp add: ex_plug_sysinfo_def)
  from plug_on_value[OF ex_plug_init sys] relay
  have on: "property_value ''on'' ex_plug_device = Some (PBool (py_bool (PInt 1)))"
    by auto
  have sys': "sys_info ex_strip = Inr (PDict ex_strip_sysinfo)"
    by (simp add: ex_strip_def)
  have ch: "map_of ex_strip_sysinfo ''children'' =
              Some (PList [PDict [(''alias'', PStr ''Lamp''), (''state'', PInt 0)],
                           PDict [(''alias'', PStr ''Fan''), (''state'', PInt 1)]])"
    by (simp add: ex_strip_sysinfo_def)
  from plug_on_value[OF ex_strip_init sys'] ch
  have on': "property_value ''on'' ex_strip_device = Some (PBool (py_bool (PInt 1)))"
    by auto
  from ch have "\<exists>cs child. map_of ex_strip_sysinfo ''children'' = Some (PList cs)
         \<and> cs ! 1 = PDict child \<and> map_of child ''state'' = Some (PInt 1)"
    by simp
  with ex_plug_init sys relay on ex_strip_init sys' on' show ?thesis
    by simp
qed

text \<open>
  C8. A constructed plug has the \<open>MultiLevelSwitch\<close> tag, and a \<open>level\<close> property
  (an integer with minimum 0 and maximum 100), exactly when the status has a
  \<open>brightness\<close> field; the property then starts at \<open>int\<close> of that field.
\<close>

theorem plug_dimmable:
  assumes "plug_init ene kyla index = Inr dev" and "sys_info kyla = Inr (PDict si)"
  shows "(''MultiLevelSwitch'' \<in> set (d_type dev) \<longleftrightarrow> map_of si ''brightness'' \<noteq> None)
       \<and> (map_of (d_properties dev) ''level'' \<noteq> None \<longleftrightarrow> map_of si ''brightness'' \<noteq> None)
       \<and> (\<forall>b. map_of si ''brightness'' = Some b \<longrightarrow>
             (\<exists>n. py_int b = Inr n \<and>
                  map_of (d_properties dev) ''level'' =
                    Some \<lparr>prop_name = ''level'',
                          prop_description =
                            [(''@type'', PStr ''LevelProperty''),
                             (''title'', PStr ''Level''),
                             (''type'', PStr ''integer''),
                             (''unit'', PStr ''percent''),
                             (''minimum'', PInt 0),
                             (''maximum'', PInt 100)],
                          prop_value = PInt n\<rparr>))"
proof -
  from assms(1) obtain sysinfo plug p dim where
    "sys_info kyla = Inr sysinfo"
    and "plug_is_dimmable sysinfo = Inr dim"
    and "d_type dev = ''OnOffSwitch'' # (if plug then [''SmartPlug''] else [])
                    @ (if p \<noteq> PNone then [''EnergyMonitor''] else [])
                    @ (if dim then [''MultiLevelSwitch''] else [])"
    and "dim \<Longrightarrow> \<exists>n. plug_brightness sysinfo = Inr n \<and>
              map_of (d_properties dev) ''level'' =
                Some \<lparr>prop_name = ''level'',
                      prop_description =
                        [(''@type'', PStr ''LevelProperty''),
                         (''title'', PStr ''Level''),
                         (''type'', PStr ''integer''),
                         (''unit'', PStr ''percent''),
                         (''minimum'', PInt 0),
                         (''maximum'', PInt 100)],
                      prop_value = PInt n\<rparr>"
    and "\<not> dim \<Longrightarrow> map_of (d_properties dev) ''level'' = None"
    by (elim plug_init_summary) (rule that, assumption+)
  with assms(2) have dim: "dim = (map_of si ''brightness'' \<noteq> None)"
    and tag: "''MultiLevelSwitch'' \<in> set (d_type dev) \<longleftrightarrow> dim"
    and level: "dim \<Longrightarrow> \<exists>n. plug_brightness (PDict si) = Inr n \<and>
              map_of (d_properties dev) ''level'' =
                Some \<lparr>prop_name = ''level'',
                      prop_description =
                        [(''@type'', PStr ''LevelProperty''),
                         (''title'', PStr ''Level''),
                         (''type'', PStr ''integer''),
                         (''unit'', PStr ''percent''),
                         (''minimum'', PInt 0),
                         (''maximum'', PInt 100)],
                      prop_value = PInt n\<rparr>"
    and none: "\<not> dim \<Longrightarrow> map_of (d_properties dev) ''level'' = None"
    by (simp_all add: plug_is_dimmable_def)
  show ?thesis
  proof (cases dim)
    case True
    from level[OF True] obtain n where n: "plug_brightness (PDict si) = Inr n"
      and l: "map_of (d_properties dev) ''level'' =
                Some \<lparr>prop_name = ''level'',
                      prop_description =
                        [(''@type'', PStr ''LevelProperty''),
                         (''title'', PStr ''Level''),
                         (''type'', PStr ''integer''),
                         (''unit'', PStr ''percent''),
                         (''minimum'', PInt 0),
                         (''maximum'', PInt 100)],
                      prop_value = PInt n\<rparr>"
      by (elim exE conjE)
    from n obtain b where "map_of si ''brightness'' = Some b" and "py_int b = Inr n"
      by (rule plug_brightness_InrE)
    with True tag l show ?thesis
      by (simp add: dim)
  next
    case False
    with tag none[OF False] show ?thesis
      by (simp add: dim)
  qed
qed

theorem plug_dimmable_witness:
  "plug_init ''ENE'' ex_switch (- 1) = Inr ex_switch_device
   \<and> sys_info ex_switch = Inr (PDict ex_switch_sysinfo)
   \<and> map_of ex_switch_sysinfo ''brightness'' = Some (PInt 75)
   \<and> ''MultiLevelSwitch'' \<in> set (d_type ex_switch_device)
   \<and> map_option prop_value (map_of (d_properties ex_switch_device) ''level'') = Some (PInt 75)
   \<and> plug_init ''ENE'' ex_plug (- 1) = Inr ex_plug_device
   \<and> sys_info ex_plug = Inr (PDict ex_plug_sysinfo)
   \<and> map_of ex_plug_sysinfo ''brightness'' = None
   \<and> ''MultiLevelSwitch'' \<notin> set (d_type ex_plug_device)
   \<and> map_of (d_properties ex_plug_device) ''level'' = None"
proof -
  have sys: "sys_info ex_switch = Inr (PDict ex_switch_sysinfo)"
    by (simp add: ex_switch_def)
  have b: "map_of ex_switch_sysinfo ''brightness'' = Some (PInt 75)"
    by (simp add: ex_switch_sysinfo_def)
  from plug_dimmable[OF ex_switch_init sys] b
  have yes: "''MultiLevelSwitch'' \<in> set (d_type ex_switch_device)"
    "map_option prop_value (map_of (d_properties ex_switch_device) ''level'') = Some (PInt 75)"
    by auto
  have sys': "sys_info ex_plug = Inr (PDict ex_plug_sysinfo)"
    by (simp add: ex_plug_def)
  have b': "map_of ex_plug_sysinfo ''brightness'' = None"
    by (simp add: ex_plug_sysinfo_def)
  from plug_dimmable[OF ex_plug_init sys'] b'
  have no: "''MultiLevelSwitch'' \<notin> set (d_type ex_plug_device)"
    "map_of (d_properties ex_plug_device) ''level'' = None"
    by simp_all
  from ex_switch_init sys b yes ex_plug_init sys' b' no show ?thesis
    by (intro conjI)
qed

text \<open>
  C9. The value of the \<open>led-on\<close> property is the logical negation of the status's
  \<open>led_off\<close> flag, a flag being 0 or 1 (or \<open>False\<close> or \<open>True\<close>): the property is true
  exactly when the flag is falsy.
\<close>

theorem led_on_value:
  assumes "plug_init ene kyla index = Inr dev" and "sys_info kyla = Inr (PDict si)"
    and "map_of si ''led_off'' = Some off"
    and "off \<in> {PInt 0, PInt 1, PBool False, PBool True}"
  shows "property_value ''led-on'' dev = Some (PBool (\<not> py_bool off))
       \<and> (property_value ''led-on'' dev = Some (PBool True) \<longleftrightarrow> \<not> py_bool off)"
proof -
  from assms(1) obtain sysinfo led where
    "sys_info kyla = Inr sysinfo"
    and "is_led_on sysinfo = Inr led"
    and v: "property_value ''led-on'' dev = Some (PBool led)"
    by (elim plug_init_summary) (rule that, assumption+)
  with assms(2) have "is_led_on (PDict si) = Inr led"
    by simp
  then obtain off' where "map_of si ''led_off'' = Some off'"
    and "led = (off' \<notin> {PInt 1, PBool True, PFloat 1})"
    by (rule is_led_on_InrE)
  with assms(3) have led: "led = (off \<notin> {PInt 1, PBool True, PFloat 1})"
    by simp
  from assms(4) have "led = (\<not> py_bool off)"
    unfolding led by auto
  with v show ?thesis
    by simp
qed

theorem led_on_value_witness:
  "plug_init ''ENE'' ex_switch (- 1) = Inr ex_switch_device
   \<and> sys_info ex_switch = Inr (PDict ex_switch_sysinfo)
   \<and> map_of ex_switch_sysinfo ''led_off'' = Some (PInt 1)
   \<and> py_bool (PInt 1)
   \<and> property_value ''led-on'' ex_switch_device = Some (PBool False)
   \<and> plug_init ''ENE'' ex_plug (- 1) = Inr ex_plug_device
   \<and> sys_info ex_plug = Inr (PDict ex_plug_sysinfo)
   \<and> map_of ex_plug_sysinfo ''led_off'' = Some (PInt 0)
   \<and> \<not> py_bool (PInt 0)
   \<and> property_value ''led-on'' ex_plug_device = Some (PBool True)"
proof -
  have sys: "sys_info ex_switch = Inr (PDict ex_switch_sysinfo)"
    by (simp add: ex_switch_def)
  have off: "map_of ex_switch_sysinfo ''led_off'' = Some (PInt 1)"
    by (simp add: ex_switch_sysinfo_def)
  have flag: "PInt 1 \<in> {PInt 0, PInt 1, PBool False, PBool True}"
    by simp
  have t: "py_bool (PInt 1)"
    by simp
  from led_on_value[OF ex_switch_init sys off flag] t
  have a: "property_value ''led-on'' ex_switch_device = Some (PBool False)"
    by simp
  have sys': "sys_info ex_plug = Inr (PDict ex_plug_sysinfo)"
    by (simp add: ex_plug_def)
  have off': "map_of ex_plug_sysinfo ''led_off'' = Some (PInt 0)"
    by (simp add: ex_plug_sysinfo_def)
  have flag': "PInt 0 \<in> {PInt 0, PInt 1, PBool False, PBool True}"
    by simp
  have f: "\<not> py_bool (PInt 0)"
    by simp
  from led_on_value[OF ex_plug_init sys' off' flag'] f
  have b: "property_value ''led-on'' ex_plug_device = Some (PBool True)"
    by simp
  from ex_switch_init sys off t a ex_plug_init sys' off' f b show ?thesis
    by (intro conjI)
qed

text \<open>
  C2. A plug whose feature list holds the energy-meter token, and whose emeter snapshot
  has a voltage but no power reading, is constructed without the \<open>EnergyMonitor\<close> tag:
  the token alone does not decide the tag.
\<close>

theorem energy_monitor_counterexample:
  "sys_info ex_no_power = Inr (PDict ex_plug_sysinfo)
   \<and> map_of ex_plug_sysinfo ''feature'' = Some (PStr ''TIM:ENE'')
   \<and> ''ENE'' \<in> set (split_on CHR '':'' ''TIM:ENE'')
   \<and> has_emeter ''ENE'' (PDict ex_plug_sysinfo) = Inr True
   \<and> map_sum id d_type (plug_init ''ENE'' ex_no_power (- 1)) = Inr [''OnOffSwitch'', ''SmartPlug'']"
  by code_simp

text \<open>
  C2, as the code has it. When the feature list holds the token, the emeter snapshot is
  fetched, the \<open>EnergyMonitor\<close> tag is present exactly when the power reading is not
  \<open>None\<close>, and each of the power, voltage and current properties exists exactly when
  its reading is not \<open>None\<close>, with the reading as its value. When the list does not
  hold the token, there is neither the tag nor any of the three properties.
\<close>

theorem energy_monitor_tag:
  assumes "plug_init ene kyla index = Inr dev" and "sys_info kyla = Inr (PDict si)"
  shows "\<exists>f. map_of si ''feature'' = Some (PStr f) \<and>
           (if ene \<in> set (split_on CHR '':'' f)
            then \<exists>em p v c. get_emeter_realtime kyla = Inr em
                   \<and> power_emeter em = Inr p \<and> voltage em = Inr v \<and> current em = Inr c
                   \<and> (''EnergyMonitor'' \<in> set (d_type dev) \<longleftrightarrow> p \<noteq> PNone)
                   \<and> property_value ''instantaneousPower'' dev = (if p \<noteq> PNone then Some p else None)
                   \<and> property_value ''voltage'' dev = (if v \<noteq> PNone then Some v else None)
                   \<and> property_value ''current'' dev = (if c \<noteq> PNone then Some c else None)
            else ''EnergyMonitor'' \<notin> set (d_type dev)
                   \<and> property_value ''instantaneousPower'' dev = None
                   \<and> property_value ''voltage'' dev = None
                   \<and> property_value ''current'' dev = None)"
proof -
  from assms(1) obtain sysinfo plug metered p v c dim where
    "sys_info kyla = Inr sysinfo"
    and "has_emeter ene sysinfo = Inr metered"
    and yes: "metered \<Longrightarrow> \<exists>em. get_emeter_realtime kyla = Inr em \<and> power_emeter em = Inr p
                       \<and> voltage em = Inr v \<and> current em = Inr c"
    and no: "\<not> metered \<Longrightarrow> p = PNone \<and> v = PNone \<and> c = PNone"
    and t: "d_type dev = ''OnOffSwitch'' # (if plug then [''SmartPlug''] else [])
                    @ (if p \<noteq> PNone then [''EnergyMonitor''] else [])
                    @ (if dim then [''MultiLevelSwitch''] else [])"
    and pp: "property_value ''instantaneousPower'' dev = (if p \<noteq> PNone then Some p else None)"
    and pv: "property_value ''voltage'' dev = (if v \<noteq> PNone then Some v else None)"
    and pc: "property_value ''current'' dev = (if c \<noteq> PNone then Some c else None)"
    by (elim plug_init_summary) (rule that, assumption+)
  with assms(2) have "has_emeter ene (PDict si) = Inr metered"
    by simp
  then obtain f where f: "map_of si ''feature'' = Some (PStr f)"
    and m: "metered = (ene \<in> set (split_on CHR '':'' f))"
    by (rule has_emeter_InrE)
  from t have tag: "''EnergyMonitor'' \<in> set (d_type dev) \<longleftrightarrow> p \<noteq> PNone"
    by simp
  show ?thesis
  proof (cases metered)
    case True
    from yes[OF True] obtain em where "get_emeter_realtime kyla = Inr em"
      "power_emeter em = Inr p" "voltage em = Inr v" "current em = Inr c"
      by (elim exE conjE)
    with f True tag pp pv pc show ?thesis
      unfolding m
      by (intro exI[of _ f]) (simp only: if_True simp_thms, intro conjI exI[of _ em] exI[of _ p] exI[of _ v] exI[of _ c], simp_all)
  next
    case False
    from no[OF False] have "p = PNone" "v = PNone" "c = PNone"
      by simp_all
    with f False tag pp pv pc show ?thesis
      unfolding m
      by (intro exI[of _ f]) simp
  qed
qed

theorem energy_monitor_tag_witness:
  "plug_init ''ENE'' ex_plug (- 1) = Inr ex_plug_device
   \<and> sys_info ex_plug = Inr (PDict ex_plug_sysinfo)
   \<and> map_of ex_plug_sysinfo ''feature'' = Some (PStr ''TIM:ENE'')
   \<and> ''ENE'' \<in> set (split_on CHR '':'' ''TIM:ENE'')
   \<and> get_emeter_realtime ex_plug = Inr (PDict [(''power_mw'', PInt 2000)])
   \<and> power_emeter (PDict [(''power_mw'', PInt 2000)]) = Inr (PFloat 2)
   \<and> ''EnergyMonitor'' \<in> set (d_type ex_plug_device)
   \<and> property_value ''instantaneousPower'' ex_plug_device = Some (PFloat 2)
   \<and> property_value ''voltage'' ex_plug_device = None
   \<and> property_value ''current'' ex_plug_device = None
   \<and> plug_init ''ENE'' ex_switch (- 1) = Inr ex_switch_device
   \<and> sys_info ex_switch = Inr (PDict ex_switch_sysinfo)
   \<and> map_of ex_switch_sysinfo ''feature'' = Some (PStr ''TIM'')
   \<and> ''ENE'' \<notin> set (split_on CHR '':'' ''TIM'')
   \<and> ''EnergyMonitor'' \<notin> set (d_type ex_switch_device)
   \<and> property_value ''instantaneousPower'' ex_switch_device = None
   \<and> property_value ''voltage'' ex_switch_device = None
   \<and> property_value ''current'' ex_switch_device = None"
proof -
  have sys: "sys_info ex_plug = Inr (PDict ex_plug_sysinfo)"
    by (simp add: ex_plug_def)
  have f: "map_of ex_plug_sysinfo ''feature'' = Some (PStr ''TIM:ENE'')"
    by (simp add: ex_plug_sysinfo_def)
  have tok: "''ENE'' \<in> set (split_on CHR '':'' ''TIM:ENE'')"
    by simp
  have em: "get_emeter_realtime ex_plug = Inr (PDict [(''power_mw'', PInt 2000)])"
    by (simp add: ex_plug_def)
  have p: "power_emeter (PDict [(''power_mw'', PInt 2000)]) = Inr (PFloat 2)"
    and v: "voltage (PDict [(''power_mw'', PInt 2000)]) = Inr PNone"
    and c: "current (PDict [(''power_mw'', PInt 2000)]) = Inr PNone"
    by (simp_all add: power_emeter_def voltage_def current_def)
  from energy_monitor_tag[OF ex_plug_init sys] f tok em p v c
  have yes: "''EnergyMonitor'' \<in> set (d_type ex_plug_device)"
    "property_value ''instantaneousPower'' ex_plug_device = Some (PFloat 2)"
    "property_value ''voltage'' ex_plug_device = None"
    "property_value ''current'' ex_plug_device = None"
    by auto
  have sys': "sys_info ex_switch = Inr (PDict ex_switch_sysinfo)"
    by (simp add: ex_switch_def)
  have f': "map_of ex_switch_sysinfo ''feature'' = Some (PStr ''TIM'')"
    by (simp add: ex_switch_sysinfo_def)
  have tok': "''ENE'' \<notin> set (split_on CHR '':'' ''TIM'')"
    by simp
  from energy_monitor_tag[OF ex_switch_init sys'] f' tok'
  have no: "''EnergyMonitor'' \<notin> set (d_type ex_switch_device)"
    "property_value ''instantaneousPower'' ex_switch_device = None"
    "property_value ''voltage'' ex_switch_device = None"
    "property_value ''current'' ex_switch_device = None"
    by auto
  from ex_plug_init sys f tok em p yes ex_switch_init sys' f' tok' no show ?thesis
    by (intro conjI)
qed

section \<open>The poll loops under failed fetches\<close>

lemma plug_poll_cycle_fails:
  assumes "plug_fetch_fails ene kyla"
  shows "plug_poll_cycle ene upd kyla dev = Next dev"
proof (cases "sys_info kyla")
  case (Inl e)
  with assms show ?thesis
    by (simp add: plug_fetch_fails_def plug_poll_cycle_def except_SmartDeviceException_def)
next
  case (Inr sysinfo)
  with assms show ?thesis
    by (auto simp: plug_fetch_fails_def plug_poll_cycle_def except_SmartDeviceException_def)
qed

lemma bulb_poll_cycle_fails:
  assumes "bulb_fetch_fails kyla"
  shows "bulb_poll_cycle upd kyla dev = Next dev"
proof (cases "sys_info kyla")
  case (Inl e)
  with assms show ?thesis
    by (simp add: bulb_fetch_fails_def bulb_poll_cycle_def except_SmartDeviceException_def)
next
  case (Inr sysinfo)
  with assms show ?thesis
    by (cases "get_emeter_realtime kyla")
       (auto simp: bulb_fetch_fails_def bulb_poll_cycle_def except_SmartDeviceException_def)
qed

lemma plug_poll_all_fail:
  "\<forall>kyla \<in> set trace. plug_fetch_fails ene kyla \<Longrightarrow>
     plug_poll ene upd trace t dev = Polling (t + POLL_INTERVAL * length trace) dev"
  by (induction trace arbitrary: t) (simp_all add: plug_poll_cycle_fails)

lemma bulb_poll_all_fail:
  "\<forall>kyla \<in> set trace. bulb_fetch_fails kyla \<Longrightarrow>
     bulb_poll upd trace t dev = Polling (t + POLL_INTERVAL * length trace) dev"
  by (induction trace arbitrary: t) (simp_all add: bulb_poll_cycle_fails)

text \<open>
  C3. In a poll cycle of a plug or of a bulb in which a snapshot fetch fails, the device
  and so every property it owns is left as it was, no exception leaves the loop, and
  the loop goes on: after the cycle it is where it would be had it started 5 time units
  later on the rest of the trace. A trace of nothing but failed cycles leaves the loop
  polling, 5 units of time per cycle later, with the device unchanged.
\<close>

theorem poll_fault_tolerance:
  "(plug_fetch_fails ene kyla \<longrightarrow>
      plug_poll_cycle ene upd kyla dev = Next dev
      \<and> plug_poll ene upd (kyla # rest) t dev = plug_poll ene upd rest (t + 5) dev)
   \<and> (bulb_fetch_fails kyla \<longrightarrow>
      bulb_poll_cycle upd' kyla dev = Next dev
      \<and> bulb_poll upd' (kyla # rest) t dev = bulb_poll upd' rest (t + 5) dev)
   \<and> ((\<forall>k \<in> set trace. plug_fetch_fails ene k) \<longrightarrow>
      plug_poll ene upd trace t dev = Polling (t + 5 * length trace) dev)
   \<and> ((\<forall>k \<in> set trace. bulb_fetch_fails k) \<longrightarrow>
      bulb_poll upd' trace t dev = Polling (t + 5 * length trace) dev)"
  using plug_poll_all_fail[of trace ene upd t dev] bulb_poll_all_fail[of trace upd' t dev]
  by (simp add: plug_poll_cycle_fails bulb_poll_cycle_fails POLL_INTERVAL_def)

theorem poll_fault_tolerance_witness:
  "plug_fetch_fails ''ENE'' ex_down
   \<and> plug_fetch_fails ''ENE'' ex_emeter_down
   \<and> bulb_fetch_fails ex_down
   \<and> bulb_fetch_fails ex_light_down
   \<and> plug_poll_cycle ''ENE'' (\<lambda>sysinfo emeter. ex_update sysinfo) ex_emeter_down ex_plug_device
        = Next ex_plug_device
   \<and> plug_poll ''ENE'' (\<lambda>sysinfo emeter. ex_update sysinfo) [ex_down, ex_emeter_down] 0 ex_plug_device
        = Polling 10 ex_plug_device
   \<and> bulb_poll_cycle (\<lambda>sysinfo state emeter. ex_update state) ex_light_down ex_bulb_device
        = Next ex_bulb_device
   \<and> bulb_poll (\<lambda>sysinfo state emeter. ex_update state) [ex_down, ex_light_down] 0 ex_bulb_device
        = Polling 10 ex_bulb_device"
proof -
  have a: "plug_fetch_fails ''ENE'' ex_down"
    by (simp add: plug_fetch_fails_def ex_down_def)
  have b: "plug_fetch_fails ''ENE'' ex_emeter_down"
    by (simp add: plug_fetch_fails_def ex_emeter_down_def ex_plug_def ex_plug_sysinfo_def
          has_emeter_def)
  have c: "bulb_fetch_fails ex_down"
    by (simp add: bulb_fetch_fails_def ex_down_def)
  have ab: "\<forall>k \<in> set [ex_down, ex_emeter_down]. plug_fetch_fails ''ENE'' k"
    using a b by simp
  have d: "bulb_fetch_fails ex_light_down"
    by (simp add: bulb_fetch_fails_def ex_light_down_def ex_bulb_def)
  have cc: "\<forall>k \<in> set [ex_down, ex_light_down]. bulb_fetch_fails k"
    using c d by simp
  have n: "0 + 5 * length [ex_down, ex_emeter_down] = (10::nat)"
    and n': "0 + 5 * length [ex_down, ex_light_down] = (10::nat)"
    by simp_all
  note plug = poll_fault_tolerance[of "''ENE''" ex_emeter_down "\<lambda>sysinfo emeter. ex_update sysinfo"
      ex_plug_device "[]" 0 "\<lambda>sysinfo state emeter. ex_update state" "[ex_down, ex_emeter_down]"]
  from plug b
  have p: "plug_poll_cycle ''ENE'' (\<lambda>sysinfo emeter. ex_update sysinfo) ex_emeter_down ex_plug_device
        = Next ex_plug_device"
    by blast
  from plug ab
  have "plug_poll ''ENE'' (\<lambda>sysinfo emeter. ex_update sysinfo) [ex_down, ex_emeter_down] 0 ex_plug_device
        = Polling (0 + 5 * length [ex_down, ex_emeter_down]) ex_plug_device"
    by blast
  then have q: "plug_poll ''ENE'' (\<lambda>sysinfo emeter. ex_update sysinfo) [ex_down, ex_emeter_down] 0 ex_plug_device
        = Polling 10 ex_plug_device"
    unfolding n .
  note bulb = poll_fault_tolerance[of "''ENE''" ex_light_down "\<lambda>sysinfo emeter. ex_update sysinfo"
      ex_bulb_device "[]" 0 "\<lambda>sysinfo state emeter. ex_update state" "[ex_down, ex_light_down]"]
  from bulb d
  have r: "bulb_poll_cycle (\<lambda>sysinfo state emeter. ex_update state) ex_light_down ex_bulb_device
        = Next ex_bulb_device"
    by blast
  from bulb cc
  have "bulb_poll (\<lambda>sysinfo state emeter. ex_update state) [ex_down, ex_light_down] 0 ex_bulb_device
        = Polling (0 + 5 * length [ex_down, ex_light_down]) ex_bulb_device"
    by blast
  then have s: "bulb_poll (\<lambda>sysinfo state emeter. ex_update state) [ex_down, ex_light_down] 0 ex_bulb_device
        = Polling 10 ex_bulb_device"
    unfolding n' .
  from a b c d p q r s show ?thesis
    by (intro conjI)
qed

section \<open>The energy readings\<close>

text \<open>
  C4. Each of the three extraction helpers, on an energy snapshot: the value under the
  base-unit key as it is when the key is present; otherwise the value under the
  milli-unit key divided by 1000 when that key is present; otherwise \<open>None\<close>. With only
  the milli-unit key at 1500 the result is 1.5, with only the base-unit key at 1.5 it
  is 1.5, with neither key it is \<open>None\<close> and not zero.
\<close>

theorem emeter_readings:
  "power_emeter (PDict e) =
     (case map_of e ''power'' of
        Some v \<Rightarrow> Inr v
      | None \<Rightarrow> (case map_of e ''power_mw'' of Some v \<Rightarrow> py_truediv v 1000 | None \<Rightarrow> Inr PNone))
   \<and> voltage (PDict e) =
     (case map_of e ''voltage'' of
        Some v \<Rightarrow> Inr v
      | None \<Rightarrow> (case map_of e ''voltage_mv'' of Some v \<Rightarrow> py_truediv v 1000 | None \<Rightarrow> Inr PNone))
   \<and> current (PDict e) =
     (case map_of e ''current'' of
        Some v \<Rightarrow> Inr v
      | None \<Rightarrow> (case map_of e ''current_ma'' of Some v \<Rightarrow> py_truediv v 1000 | None \<Rightarrow> Inr PNone))
   \<and> py_truediv (PInt i) 1000 = Inr (PFloat (of_int i / 1000))
   \<and> power_emeter (PDict [(''power_mw'', PInt 1500)]) = Inr (PFloat (3 / 2))
   \<and> voltage (PDict [(''voltage_mv'', PInt 1500)]) = Inr (PFloat (3 / 2))
   \<and> current (PDict [(''current_ma'', PInt 1500)]) = Inr (PFloat (3 / 2))
   \<and> power_emeter (PDict [(''power'', PFloat (3 / 2))]) = Inr (PFloat (3 / 2))
   \<and> voltage (PDict [(''voltage'', PFloat (3 / 2))]) = Inr (PFloat (3 / 2))
   \<and> current (PDict [(''current'', PFloat (3 / 2))]) = Inr (PFloat (3 / 2))
   \<and> power_emeter (PDict []) = Inr PNone \<and> power_emeter (PDict []) \<noteq> Inr (PInt 0)
   \<and> voltage (PDict []) = Inr PNone \<and> voltage (PDict []) \<noteq> Inr (PInt 0)
   \<and> current (PDict []) = Inr PNone \<and> current (PDict []) \<noteq> Inr (PInt 0)"
  by (simp add: power_emeter_def voltage_def current_def split: option.splits)

section \<open>The bulb's reads and capabilities\<close>

text \<open>
  C1. The reads behind the colour, colour-temperature, colour-mode and brightness
  properties take their fields from one record \<open>src\<close>: the light state itself when its
  \<open>on_off\<close> flag is true, and the nested \<open>dft_on_state\<close> when the flag is false.
\<close>

theorem off_state_resolution:
  assumes "map_of ls ''on_off'' = Some flag"
    and "if py_bool flag then src = PDict ls else map_of ls ''dft_on_state'' = Some src"
  shows "color_temp (PDict ls) = bindE (py_getitem src ''color_temp'') py_int
       \<and> color_mode (PDict ls) =
           bindE (py_getitem src ''color_temp'') (\<lambda>ct.
           bindE (py_int ct) (\<lambda>n. Inr (if n = 0 then ''color'' else ''temperature'')))
       \<and> bulb_brightness (PDict ls) = bindE (py_getitem src ''brightness'') py_int
       \<and> hsv (PDict ls) =
           bindE (py_getitem src ''hue'') (\<lambda>hue.
           bindE (py_getitem src ''saturation'') (\<lambda>saturation.
           bindE (py_getitem src ''brightness'') (\<lambda>b.
           bindE (py_mul b 255) (\<lambda>scaled.
           bindE (py_truediv scaled 100) (\<lambda>q.
           bindE (py_int q) (\<lambda>val.
           Inr (hue, saturation, val)))))))"
proof (cases "py_bool flag")
  case True
  with assms have on: "bulb_is_on (PDict ls) = Inr True" and src: "src = PDict ls"
    by (simp_all add: bulb_is_on_def)
  show ?thesis
    unfolding color_temp_def color_mode_def bulb_brightness_def hsv_def on src
    by (simp add: if_distrib cong: if_cong)
next
  case False
  with assms have off: "bulb_is_on (PDict ls) = Inr False"
    and src: "map_of ls ''dft_on_state'' = Some src"
    by (simp_all add: bulb_is_on_def)
  show ?thesis
    unfolding color_temp_def color_mode_def bulb_brightness_def hsv_def off
    by (simp add: src if_distrib cong: if_cong)
qed

theorem off_state_resolution_witness:
  "color_mode (PDict ex_light_state) = Inr ''color''
   \<and> bulb_brightness (PDict ex_light_state) = Inr 80
   \<and> color_temp (PDict ex_light_state) = Inr 0
   \<and> hsv (PDict ex_light_state) = Inr (PInt 120, PInt 50, 204)
   \<and> color_mode (PDict ex_light_state_stale) = Inr ''color''
   \<and> bulb_brightness (PDict ex_light_state_stale) = Inr 80
   \<and> color_mode (PDict ex_light_state_on) = Inr ''temperature''
   \<and> bulb_brightness (PDict ex_light_state_on) = Inr 40"
proof -
  let ?dft = "PDict [(''hue'', PInt 120), (''saturation'', PInt 50),
                     (''brightness'', PInt 80), (''color_temp'', PInt 0)]"
  have f: "map_of ex_light_state ''on_off'' = Some (PInt 0)"
    and s: "if py_bool (PInt 0) then ?dft = PDict ex_light_state
            else map_of ex_light_state ''dft_on_state'' = Some ?dft"
    by (simp_all add: ex_light_state_def)
  have f': "map_of ex_light_state_stale ''on_off'' = Some (PInt 0)"
    and s': "if py_bool (PInt 0) then ?dft = PDict ex_light_state_stale
            else map_of ex_light_state_stale ''dft_on_state'' = Some ?dft"
    by (simp_all add: ex_light_state_stale_def)
  have f'': "map_of ex_light_state_on ''on_off'' = Some (PInt 1)"
    and s'': "if py_bool (PInt 1) then PDict ex_light_state_on = PDict ex_light_state_on
            else map_of ex_light_state_on ''dft_on_state'' = Some (PDict ex_light_state_on)"
    by (simp_all add: ex_light_state_on_def)
  from off_state_resolution[OF f s]
  have a: "color_mode (PDict ex_light_state) = Inr ''color''
   \<and> bulb_brightness (PDict ex_light_state) = Inr 80
   \<and> color_temp (PDict ex_light_state) = Inr 0
   \<and> hsv (PDict ex_light_state) = Inr (PInt 120, PInt 50, 204)"
    by (simp add: trunc_def)
  from off_state_resolution[OF f' s']
  have b: "color_mode (PDict ex_light_state_stale) = Inr ''color''
   \<and> bulb_brightness (PDict ex_light_state_stale) = Inr 80"
    by simp
  from off_state_resolution[OF f'' s'']
  have c: "color_mode (PDict ex_light_state_on) = Inr ''temperature''
   \<and> bulb_brightness (PDict ex_light_state_on) = Inr 40"
    by (simp add: ex_light_state_on_def)
  from a b c show ?thesis
    by simp
qed

text \<open>The constructor on the example bulbs, and its blocks.\<close>

lemma ex_bulb_init: "bulb_init ex_hsv_to_rgb ex_bulb (- 1) = Inr ex_bulb_device"
  by code_simp

lemma ex_white_init: "bulb_init ex_hsv_to_rgb ex_white (- 1) = Inr ex_white_device"
  by code_simp

lemma bulb_color_InrE:
  assumes "bulb_color hsv_to_rgb sysinfo state d = Inr d'"
  obtains (colored) "is_color sysinfo = Inr True"
      "d_type d' = d_type d @ [''ColorControl'']"
      "\<And>k. k \<noteq> ''color'' \<Longrightarrow> map_of (d_properties d') k = map_of (d_properties d) k"
    | (plain) "is_color sysinfo = Inr False" "d' = d"
proof -
  from assms obtain c where c: "is_color sysinfo = Inr c"
    unfolding bulb_color_def by (elim bindE_InrE)
  show thesis
  proof (cases c)
    case True
    with assms c obtain h s v where h: "hsv state = Inr (h, s, v)"
      unfolding bulb_color_def by (simp, elim bindE_InrE) auto
    with assms c True obtain rgb where rgb: "hsv_to_rgb h s v = Inr rgb"
      unfolding bulb_color_def by (simp, elim bindE_InrE)
    from assms have "d' = add_property ''color''
              [(''@type'', PStr ''ColorProperty''),
               (''title'', PStr ''Color''),
               (''type'', PStr ''string'')]
              rgb (add_type ''ColorControl'' d)"
      by (simp add: bulb_color_def c True h rgb)
    with c True show thesis
      by (intro colored) simp_all
  next
    case False
    from assms show thesis
      by (intro plain) (simp_all add: bulb_color_def c False)
  qed
qed

lemma bulb_color_temperature_InrE:
  assumes "bulb_color_temperature kyla sysinfo state d = Inr d'"
  obtains (tunable) ct where "is_variable_color_temp sysinfo = Inr True"
      "color_temp state = Inr ct"
      "d_type d' = d_type d @ (if ''ColorControl'' \<notin> set (d_type d) then [''ColorControl''] else [])"
      "\<And>k. k \<noteq> ''colorTemperature'' \<Longrightarrow> map_of (d_properties d') k = map_of (d_properties d) k"
    | (fixed) "is_variable_color_temp sysinfo = Inr False" "d' = d"
proof -
  from assms obtain t where t: "is_variable_color_temp sysinfo = Inr t"
    unfolding bulb_color_temperature_def by (elim bindE_InrE)
  show thesis
  proof (cases t)
    case True
    with assms t obtain r where r: "valid_temperature_range kyla = Inr r"
      unfolding bulb_color_temperature_def by (simp, elim bindE_InrE)
    with assms t True obtain lo where lo: "py_getitem_int r 0 = Inr lo"
      unfolding bulb_color_temperature_def by (simp, elim bindE_InrE)
    with assms t True r obtain hi where hi: "py_getitem_int r 1 = Inr hi"
      unfolding bulb_color_temperature_def by (simp, elim bindE_InrE)
    with assms t True r lo obtain ct where ct: "color_temp state = Inr ct"
      unfolding bulb_color_temperature_def by (simp, elim bindE_InrE)
    from assms have "d' = add_property ''colorTemperature''
              [(''@type'', PStr ''ColorTemperatureProperty''),
               (''title'', PStr ''Color Temperature''),
               (''type'', PStr ''integer''),
               (''unit'', PStr ''kelvin''),
               (''minimum'', lo),
               (''maximum'', hi)]
              (PInt ct)
              (if ''ColorControl'' \<notin> set (d_type d) then add_type ''ColorControl'' d else d)"
      by (simp add: bulb_color_temperature_def t True r lo hi ct)
    with t True ct show thesis
      by (intro tunable[of ct]) simp_all
  next
    case False
    from assms show thesis
      by (intro fixed) (simp_all add: bulb_color_temperature_def t False)
  qed
qed

lemma bulb_color_mode_InrE:
  assumes "bulb_color_mode sysinfo state d = Inr d'"
  obtains (both) mode where "is_color sysinfo = Inr True" "is_variable_color_temp sysinfo = Inr True"
      "color_mode state = Inr mode"
      "d' = add_property ''colorMode''
              [(''@type'', PStr ''ColorModeProperty''),
               (''title'', PStr ''Color Mode''),
               (''type'', PStr ''string''),
               (''enum'', PList [PStr ''color'', PStr ''temperature'']),
               (''readOnly'', PBool True)]
              (PStr mode) d"
    | (single) "is_color sysinfo = Inr False \<or> is_variable_color_temp sysinfo = Inr False" "d' = d"
proof -
  from assms obtain c both where c: "is_color sysinfo = Inr c"
    and t: "(if c then is_variable_color_temp sysinfo else Inr False) = Inr both"
    unfolding bulb_color_mode_def by (elim bindE_InrE)
  then have b: "bindE (is_color sysinfo) (\<lambda>colored.
              if colored then is_variable_color_temp sysinfo else Inr False) = Inr both"
    by simp
  show thesis
  proof (cases both)
    case True
    with t have c': "c" and t': "is_variable_color_temp sysinfo = Inr True"
      by (cases c; simp)+
    from assms b True obtain mode where m: "color_mode state = Inr mode"
      unfolding bulb_color_mode_def by (simp, elim bindE_InrE)
    from assms have "d' = add_property ''colorMode''
              [(''@type'', PStr ''ColorModeProperty''),
               (''title'', PStr ''Color Mode''),
               (''type'', PStr ''string''),
               (''enum'', PList [PStr ''color'', PStr ''temperature'']),
               (''readOnly'', PBool True)]
              (PStr mode) d"
      by (simp add: bulb_color_mode_def b True m)
    with c c' t' m show thesis
      by (intro both[of mode]) simp_all
  next
    case False
    with t c have "is_color sysinfo = Inr False \<or> is_variable_color_temp sysinfo = Inr False"
      by (cases c) simp_all
    moreover from assms have "d' = d"
      by (simp add: bulb_color_mode_def b False)
    ultimately show thesis
      by (rule single)
  qed
qed

lemma bulb_level_frame:
  assumes "bulb_level sysinfo state d = Inr d'"
  shows "d_type d' = d_type d"
    and "k \<noteq> ''level'' \<Longrightarrow> map_of (d_properties d') k = map_of (d_properties d) k"
proof -
  from assms obtain dim where dim: "bulb_is_dimmable sysinfo = Inr dim"
    unfolding bulb_level_def by (elim bindE_InrE)
  have "d_type d' = d_type d \<and> (k \<noteq> ''level'' \<longrightarrow> map_of (d_properties d') k = map_of (d_properties d) k)"
  proof (cases dim)
    case True
    with assms dim obtain n where "bulb_brightness state = Inr n"
      unfolding bulb_level_def by (simp, elim bindE_InrE)
    with assms dim True show ?thesis
      by (auto simp: bulb_level_def)
  next
    case False
    with assms dim show ?thesis
      by (simp add: bulb_level_def)
  qed
  then show "d_type d' = d_type d"
    and "k \<noteq> ''level'' \<Longrightarrow> map_of (d_properties d') k = map_of (d_properties d) k"
    by simp_all
qed

lemma bulb_init_InrE:
  assumes "bulb_init hsv_to_rgb kyla index = Inr dev"
  obtains d0 state sysinfo d2 d3 d4 d5 emeter d6 on where
    "device_init kyla index = Inr d0"
    "get_light_state kyla = Inr state"
    "sys_info kyla = Inr sysinfo"
    "bulb_color hsv_to_rgb sysinfo state (add_type ''Light'' (add_type ''OnOffSwitch'' d0)) = Inr d2"
    "bulb_color_temperature kyla sysinfo state d2 = Inr d3"
    "bulb_color_mode sysinfo state d3 = Inr d4"
    "bulb_level sysinfo state d4 = Inr d5"
    "get_emeter_realtime kyla = Inr emeter"
    "energy_properties emeter d5 = Inr d6"
    "bulb_is_on state = Inr on"
    "dev = add_property ''on''
            [(''@type'', PStr ''OnOffProperty''),
             (''title'', PStr ''On/Off''),
             (''type'', PStr ''boolean'')]
            (PBool on) d6"
  using assms unfolding bulb_init_def Let_def
  apply (elim bindE_InrE)
  apply (erule that)
  apply assumption+
  apply simp
  done

lemma color_mode_color_temp:
  assumes "color_temp state = Inr ct"
  shows "color_mode state = Inr (if ct = 0 then ''color'' else ''temperature'')"
proof -
  from assms obtain on st v where "bulb_is_on state = Inr on"
    "(if \<not> on then py_getitem state ''dft_on_state'' else Inr state) = Inr st"
    "py_getitem st ''color_temp'' = Inr v" "py_int v = Inr ct"
    unfolding color_temp_def by (elim bindE_InrE)
  then show ?thesis
    unfolding color_mode_def by simp
qed

lemma bulb_first_blocks:
  assumes d0: "device_init kyla index = Inr d0"
    and c: "bulb_color hsv_to_rgb sysinfo state (add_type ''Light'' (add_type ''OnOffSwitch'' d0)) = Inr d2"
    and t: "bulb_color_temperature kyla sysinfo state d2 = Inr d3"
  shows "count_list (d_type d3) ''ColorControl'' =
           (if is_color sysinfo = Inr True \<or> is_variable_color_temp sysinfo = Inr True then 1 else 0)"
    and "map_of (d_properties d3) ''colorMode'' = None"
proof -
  from device_init_Inr[OF d0] have d0': "d_type d0 = []" "d_properties d0 = []"
    by simp_all
  have "count_list (d_type d3) ''ColorControl'' =
           (if is_color sysinfo = Inr True \<or> is_variable_color_temp sysinfo = Inr True then 1 else 0)
        \<and> map_of (d_properties d3) ''colorMode'' = None"
    using c
  proof (cases rule: bulb_color_InrE)
    case colored
    then have d2: "d_type d2 = [''OnOffSwitch'', ''Light'', ''ColorControl'']"
      "map_of (d_properties d2) ''colorMode'' = None"
      by (simp_all add: d0')
    from t show ?thesis
    proof (cases rule: bulb_color_temperature_InrE)
      case (tunable ct)
      with colored(1) d2 show ?thesis
        by simp
    next
      case fixed
      with colored(1) d2 show ?thesis
        by simp
    qed
  next
    case plain
    then have d2: "d_type d2 = [''OnOffSwitch'', ''Light'']"
      "map_of (d_properties d2) ''colorMode'' = None"
      by (simp_all add: d0')
    from t show ?thesis
    proof (cases rule: bulb_color_temperature_InrE)
      case (tunable ct)
      with plain(1) d2 show ?thesis
        by simp
    next
      case fixed
      with plain(1) d2 show ?thesis
        by simp
    qed
  qed
  then show "count_list (d_type d3) ''ColorControl'' =
           (if is_color sysinfo = Inr True \<or> is_variable_color_temp sysinfo = Inr True then 1 else 0)"
    and "map_of (d_properties d3) ''colorMode'' = None"
    by simp_all
qed

lemma bulb_last_blocks:
  assumes d5: "bulb_level sysinfo state d4 = Inr d5"
    and d6: "energy_properties emeter d5 = Inr d6"
  shows "count_list (d_type d6) ''ColorControl'' = count_list (d_type d4) ''ColorControl''"
    and "map_of (d_properties d6) ''colorMode'' = map_of (d_properties d4) ''colorMode''"
proof -
  from d6 obtain p where "d_type d6 = d_type d5 @ (if p \<noteq> PNone then [''EnergyMonitor''] else [])"
    and "\<And>k. k \<notin> {''instantaneousPower'', ''voltage'', ''current''} \<Longrightarrow>
           map_of (d_properties d6) k = map_of (d_properties d5) k"
    by (elim energy_properties_InrE) (rule that, assumption+)
  then have "count_list (d_type d6) ''ColorControl'' = count_list (d_type d5) ''ColorControl''"
    and "map_of (d_properties d6) ''colorMode'' = map_of (d_properties d5) ''colorMode''"
    by simp_all
  with bulb_level_frame(1)[OF d5] bulb_level_frame(2)[OF d5, of "''colorMode''"]
  show "count_list (d_type d6) ''ColorControl'' = count_list (d_type d4) ''ColorControl''"
    and "map_of (d_properties d6) ''colorMode'' = map_of (d_properties d4) ''colorMode''"
    by simp_all
qed

text \<open>
  C10. The type list of a constructed bulb holds \<open>ColorControl\<close> exactly once when
  the status indicates colour or variable colour temperature (colour alone, temperature
  alone, or both), and not at all otherwise.
\<close>

theorem color_control_once:
  assumes "bulb_init hsv_to_rgb kyla index = Inr dev" and "sys_info kyla = Inr sysinfo"
  shows "count_list (d_type dev) ''ColorControl'' =
           (if is_color sysinfo = Inr True \<or> is_variable_color_temp sysinfo = Inr True then 1 else 0)"
proof -
  from assms(1) obtain d0 state si d2 d3 d4 d5 emeter d6 on where
    d0: "device_init kyla index = Inr d0"
    and si: "sys_info kyla = Inr si"
    and d2: "bulb_color hsv_to_rgb si state (add_type ''Light'' (add_type ''OnOffSwitch'' d0)) = Inr d2"
    and d3: "bulb_color_temperature kyla si state d2 = Inr d3"
    and d4: "bulb_color_mode si state d3 = Inr d4"
    and d5: "bulb_level si state d4 = Inr d5"
    and d6: "energy_properties emeter d5 = Inr d6"
    and dev: "dev = add_property ''on''
            [(''@type'', PStr ''OnOffProperty''),
             (''title'', PStr ''On/Off''),
             (''type'', PStr ''boolean'')]
            (PBool on) d6"
    by (elim bulb_init_InrE) (rule that, assumption+)
  from si assms(2) have [simp]: "si = sysinfo"
    by simp
  from d4 have "d_type d4 = d_type d3"
    by (cases rule: bulb_color_mode_InrE) simp_all
  with bulb_first_blocks(1)[OF d0 d2 d3] bulb_last_blocks(1)[OF d5 d6] show ?thesis
    by (simp add: dev)
qed

theorem color_control_once_witness:
  "bulb_init ex_hsv_to_rgb ex_bulb (- 1) = Inr ex_bulb_device
   \<and> sys_info ex_bulb = Inr (PDict ex_bulb_sysinfo)
   \<and> is_color (PDict ex_bulb_sysinfo) = Inr True
   \<and> is_variable_color_temp (PDict ex_bulb_sysinfo) = Inr True
   \<and> count_list (d_type ex_bulb_device) ''ColorControl'' = 1
   \<and> bulb_init ex_hsv_to_rgb ex_white (- 1) = Inr ex_white_device
   \<and> sys_info ex_white = Inr (PDict ex_white_sysinfo)
   \<and> is_color (PDict ex_white_sysinfo) = Inr False
   \<and> is_variable_color_temp (PDict ex_white_sysinfo) = Inr True
   \<and> count_list (d_type ex_white_device) ''ColorControl'' = 1"
proof -
  have sys: "sys_info ex_bulb = Inr (PDict ex_bulb_sysinfo)"
    and sys': "sys_info ex_white = Inr (PDict ex_white_sysinfo)"
    by (simp_all add: ex_bulb_def ex_white_def)
  have caps: "is_color (PDict ex_bulb_sysinfo) = Inr True"
    "is_variable_color_temp (PDict ex_bulb_sysinfo) = Inr True"
    and caps': "is_color (PDict ex_white_sysinfo) = Inr False"
    "is_variable_color_temp (PDict ex_white_sysinfo) = Inr True"
    by (simp_all add: is_color_def is_variable_color_temp_def ex_bulb_sysinfo_def
          ex_white_sysinfo_def)
  from color_control_once[OF ex_bulb_init sys] caps
  have a: "count_list (d_type ex_bulb_device) ''ColorControl'' = 1"
    by simp
  from color_control_once[OF ex_white_init sys'] caps'
  have b: "count_list (d_type ex_white_device) ''ColorControl'' = 1"
    by simp
  from ex_bulb_init sys caps a ex_white_init sys' caps' b show ?thesis
    by (intro conjI)
qed

text \<open>
  C5. A bulb whose status indicates both colour and variable colour temperature is
  constructed with a \<open>colorMode\<close> property: read-only, with the enumeration
  \<open>color\<close>, \<open>temperature\<close>, and with the value \<open>color\<close> exactly when the
  colour-temperature reading \<open>color_temp(state)\<close> is 0 and \<open>temperature\<close> otherwise.
  With at most one of the two capabilities there is no \<open>colorMode\<close> property.
\<close>

theorem color_mode_property:
  assumes "bulb_init hsv_to_rgb kyla index = Inr dev"
    and "sys_info kyla = Inr sysinfo" and "get_light_state kyla = Inr state"
  shows "(is_color sysinfo = Inr True \<and> is_variable_color_temp sysinfo = Inr True \<longrightarrow>
            (\<exists>mode ct.
               map_of (d_properties dev) ''colorMode'' =
                 Some \<lparr>prop_name = ''colorMode'',
                       prop_description =
                         [(''@type'', PStr ''ColorModeProperty''),
                          (''title'', PStr ''Color Mode''),
                          (''type'', PStr ''string''),
                          (''enum'', PList [PStr ''color'', PStr ''temperature'']),
                          (''readOnly'', PBool True)],
                       prop_value = PStr mode\<rparr>
               \<and> color_temp state = Inr ct
               \<and> (mode = ''color'' \<longleftrightarrow> ct = 0)
               \<and> (mode = ''temperature'' \<longleftrightarrow> ct \<noteq> 0)))
       \<and> (\<not> (is_color sysinfo = Inr True \<and> is_variable_color_temp sysinfo = Inr True) \<longrightarrow>
            map_of (d_properties dev) ''colorMode'' = None)"
proof -
  from assms(1) obtain d0 st si d2 d3 d4 d5 emeter d6 on where
    d0: "device_init kyla index = Inr d0"
    and st: "get_light_state kyla = Inr st"
    and si: "sys_info kyla = Inr si"
    and d2: "bulb_color hsv_to_rgb si st (add_type ''Light'' (add_type ''OnOffSwitch'' d0)) = Inr d2"
    and d3: "bulb_color_temperature kyla si st d2 = Inr d3"
    and d4: "bulb_color_mode si st d3 = Inr d4"
    and d5: "bulb_level si st d4 = Inr d5"
    and d6: "energy_properties emeter d5 = Inr d6"
    and dev: "dev = add_property ''on''
            [(''@type'', PStr ''OnOffProperty''),
             (''title'', PStr ''On/Off''),
             (''type'', PStr ''boolean'')]
            (PBool on) d6"
    by (elim bulb_init_InrE) (rule that, assumption+)
  from si st assms(2,3) have [simp]: "si = sysinfo" "st = state"
    by simp_all
  have m: "map_of (d_properties dev) ''colorMode'' = map_of (d_properties d4) ''colorMode''"
    using bulb_last_blocks(2)[OF d5 d6] by (simp add: dev)
  note none = bulb_first_blocks(2)[OF d0 d2 d3]
  from d4 show ?thesis
  proof (cases rule: bulb_color_mode_InrE)
    case (both mode)
    from d3 both(2) obtain ct where ct: "color_temp state = Inr ct"
      by (cases rule: bulb_color_temperature_InrE) simp_all
    from color_mode_color_temp[OF ct] both(3)
    have mode: "mode = (if ct = 0 then ''color'' else ''temperature'')"
      by simp
    from both(1,2) show ?thesis
      by (intro conjI impI exI[of _ mode] exI[of _ ct])
         (simp_all add: m both(4) ct mode)
  next
    case single
    then show ?thesis
      using m none by auto
  qed
qed

theorem color_mode_property_witness:
  "bulb_init ex_hsv_to_rgb ex_bulb (- 1) = Inr ex_bulb_device
   \<and> sys_info ex_bulb = Inr (PDict ex_bulb_sysinfo)
   \<and> get_light_state ex_bulb = Inr (PDict ex_light_state)
   \<and> is_color (PDict ex_bulb_sysinfo) = Inr True
   \<and> is_variable_color_temp (PDict ex_bulb_sysinfo) = Inr True
   \<and> color_temp (PDict ex_light_state) = Inr 0
   \<and> map_option prop_value (map_of (d_properties ex_bulb_device) ''colorMode'') = Some (PStr ''color'')
   \<and> bulb_init ex_hsv_to_rgb ex_white (- 1) = Inr ex_white_device
   \<and> sys_info ex_white = Inr (PDict ex_white_sysinfo)
   \<and> get_light_state ex_white = Inr (PDict ex_light_state_on)
   \<and> is_color (PDict ex_white_sysinfo) = Inr False
   \<and> map_of (d_properties ex_white_device) ''colorMode'' = None"
proof -
  have sys: "sys_info ex_bulb = Inr (PDict ex_bulb_sysinfo)"
    and ls: "get_light_state ex_bulb = Inr (PDict ex_light_state)"
    and sys': "sys_info ex_white = Inr (PDict ex_white_sysinfo)"
    and ls': "get_light_state ex_white = Inr (PDict ex_light_state_on)"
    by (simp_all add: ex_bulb_def ex_white_def)
  have caps: "is_color (PDict ex_bulb_sysinfo) = Inr True"
    "is_variable_color_temp (PDict ex_bulb_sysinfo) = Inr True"
    and caps': "is_color (PDict ex_white_sysinfo) = Inr False"
    by (simp_all add: is_color_def is_variable_color_temp_def ex_bulb_sysinfo_def
          ex_white_sysinfo_def)
  have ct: "color_temp (PDict ex_light_state) = Inr 0"
    by (simp add: color_temp_def bulb_is_on_def ex_light_state_def)
  from color_mode_property[OF ex_bulb_init sys ls] caps ct
  have a: "map_option prop_value (map_of (d_properties ex_bulb_device) ''colorMode'') = Some (PStr ''color'')"
    by auto
  from color_mode_property[OF ex_white_init sys' ls'] caps'
  have b: "map_of (d_properties ex_white_device) ''colorMode'' = None"
    by simp
  from ex_bulb_init sys ls caps ct a ex_white_init sys' ls' caps' b show ?thesis
    by (intro conjI)
qed

end
